theory Spec2Isabelle
  imports Complex_Main
begin

section \<open>Python values and errors\<close>

text \<open>
  The filter compiler receives dynamically typed values (\<^verbatim>\<open>Any\<close>): the \<^verbatim>\<open>value\<close> of a
  JSON leaf, the members of an allowed-values list. They are modelled by one datatype.
  Strings are ASCII text. A dictionary is an association list in insertion order.
\<close>

datatype pyval =
    PNone
  | PBool bool
  | PInt int
  | PFloat real
  | PStr string
  | PBytes string
  | PList "pyval list"
  | PDict "(string \<times> pyval) list"

text \<open>Every \<^verbatim>\<open>raise\<close> of the sources, and the exceptions Python itself raises on the
  paths modelled, are values of \<open>error\<close>; a \<^verbatim>\<open>ValueError\<close> carries its message.\<close>

datatype error =
    ValueError string
  | KeyError string
  | TypeError
  | IndexError

text \<open>\<^verbatim>\<open>isinstance(v, str)\<close>, \<^verbatim>\<open>isinstance(v, (str, bytes))\<close> and
  \<^verbatim>\<open>isinstance(v, Iterable)\<close>.\<close>

fun is_str :: "pyval \<Rightarrow> bool" where
  "is_str (PStr s) = True"
| "is_str v = False"

fun is_str_or_bytes :: "pyval \<Rightarrow> bool" where
  "is_str_or_bytes (PStr s) = True"
| "is_str_or_bytes (PBytes s) = True"
| "is_str_or_bytes v = False"

fun is_Iterable :: "pyval \<Rightarrow> bool" where
  "is_Iterable (PStr s) = True"
| "is_Iterable (PBytes s) = True"
| "is_Iterable (PList xs) = True"
| "is_Iterable (PDict kvs) = True"
| "is_Iterable v = False"

text \<open>What \<^verbatim>\<open>for v in val\<close> and \<^verbatim>\<open>tuple(val)\<close> enumerate: the members of a list, the keys
  of a dictionary, the one-character strings of a string, the byte values of a bytes
  object. Iterating over anything else raises \<^verbatim>\<open>TypeError\<close>.\<close>

fun py_iter :: "pyval \<Rightarrow> error + pyval list" where
  "py_iter (PList xs) = Inr xs"
| "py_iter (PDict kvs) = Inr (map (\<lambda>kv. PStr (fst kv)) kvs)"
| "py_iter (PStr s) = Inr (map (\<lambda>c. PStr [c]) s)"
| "py_iter (PBytes s) = Inr (map (\<lambda>c. PInt (of_char c)) s)"
| "py_iter v = Inl TypeError"

text \<open>\<^verbatim>\<open>str.upper()\<close> on ASCII text.\<close>

definition upper_char :: "char \<Rightarrow> char" where
  "upper_char c =
     (case map_of (zip ''abcdefghijklmnopqrstuvwxyz'' ''ABCDEFGHIJKLMNOPQRSTUVWXYZ'') c of
        Some u \<Rightarrow> u
      | None \<Rightarrow> c)"

definition upper :: "string \<Rightarrow> string" where
  "upper s = map upper_char s"

section \<open>The expression library\<close>

text \<open>
  The predicates are expression trees of the external \<^verbatim>\<open>sqlglot\<close> library, imported as
  \<^verbatim>\<open>exp\<close>. Each node class the sources instantiate is a constructor of \<open>expr\<close>, with the
  arguments the sources pass: \<open>Column name table\<close> is \<^verbatim>\<open>exp.column(name, table=table)\<close>,
  \<open>Literal v is_string\<close> is the literal built from the value \<open>v\<close>, \<open>Boolean True\<close> is
  \<^verbatim>\<open>exp.true()\<close>, \<open>Count e distinct\<close> is \<^verbatim>\<open>exp.count(this=e, distinct=distinct)\<close>. The
  rendering of a tree to SQL text is the library's and is not modelled.
\<close>

datatype expr =
    Column string string
  | Table string
  | Literal pyval bool
  | Boolean bool
  | Null
  | Star
  | EQ expr expr
  | NEQ expr expr
  | GT expr expr
  | LT expr expr
  | GTE expr expr
  | LTE expr expr
  | Like expr expr
  | In expr "expr list"
  | IsNot expr expr
  | Count expr bool
  | Tuple "expr list"
  | And expr expr
  | Or expr expr
  | Paren expr

definition Literal_string :: "pyval \<Rightarrow> expr" where
  "Literal_string v = Literal v True"

definition Literal_number :: "pyval \<Rightarrow> expr" where
  "Literal_number v = Literal v False"

text \<open>
  \<^verbatim>\<open>exp.and_(*es)\<close> and \<^verbatim>\<open>exp.or_(*es)\<close> are the library's builders of a connective over
  any number of operands. Both unpack their operands as \<^verbatim>\<open>this, *rest\<close> (which raises
  \<^verbatim>\<open>ValueError\<close> when there is none), return \<^verbatim>\<open>this\<close> itself when \<^verbatim>\<open>rest\<close> is empty, and
  otherwise chain the binary connective to the left over the operands in order, putting
  an operand that is itself a connective in parentheses.
\<close>

fun wrap :: "expr \<Rightarrow> expr" where
  "wrap (And a b) = Paren (And a b)"
| "wrap (Or a b) = Paren (Or a b)"
| "wrap e = e"

definition combine :: "(expr \<Rightarrow> expr \<Rightarrow> expr) \<Rightarrow> expr list \<Rightarrow> error + expr" where
  "combine operator conditions =
     (case conditions of
        [] \<Rightarrow> Inl (ValueError ''not enough values to unpack (expected at least 1, got 0)'')
      | this # rest \<Rightarrow>
          Inr (foldl (\<lambda>acc e. operator acc (wrap e))
                 (if rest \<noteq> [] then wrap this else this) rest))"

definition exp_and :: "expr list \<Rightarrow> error + expr" where
  "exp_and es = combine And es"

definition exp_or :: "expr list \<Rightarrow> error + expr" where
  "exp_or es = combine Or es"

section \<open>Dataset\<close>

record Dataset =
  table_name :: string
  dialect :: string

definition table_expr :: "Dataset \<Rightarrow> expr" where
  "table_expr dataset = Table (table_name dataset)"

definition column_expr :: "Dataset \<Rightarrow> string \<Rightarrow> expr" where
  "column_expr dataset column = Column column (table_name dataset)"

section \<open>Filter nodes of \<^verbatim>\<open>advanced_filter_validator.py\<close>\<close>

text \<open>
  \<open>SimpleRule field operator value\<close> is a leaf, with \<^verbatim>\<open>field: str\<close>, \<^verbatim>\<open>operator: str\<close> and
  \<^verbatim>\<open>value: Any\<close>; \<open>GroupRule combinator children\<close> is a group. \<open>GroupRule_init\<close> is the
  constructor \<^verbatim>\<open>GroupRule.__init__\<close>, which upper-cases and checks the combinator.
\<close>

datatype FilterNode =
    SimpleRule string string pyval
  | GroupRule string "FilterNode list"

text \<open>A message's text in single quotes.\<close>

definition quoted :: "string \<Rightarrow> string" where
  "quoted s = [CHR 0x27] @ s @ [CHR 0x27]"

definition GroupRule_init :: "string \<Rightarrow> FilterNode list \<Rightarrow> error + FilterNode" where
  "GroupRule_init combinator children =
     (let combinator = upper combinator in
      if combinator \<notin> {''AND'', ''OR''}
      then Inl (ValueError (''combinator must be '' @ quoted ''AND'' @ '' or '' @ quoted ''OR''))
      else Inr (GroupRule combinator children))"

definition to_literal :: "pyval \<Rightarrow> expr" where
  "to_literal v = (if is_str v then Literal_string v else Literal_number v)"

text \<open>\<^verbatim>\<open>SimpleRule.expression\<close> and \<^verbatim>\<open>GroupRule.expression\<close>. The list comprehension over
  the children compiles them from left to right and stops at the first that raises.\<close>

fun FilterNode_expression :: "Dataset \<Rightarrow> FilterNode \<Rightarrow> error + expr"
  and child_exprs :: "Dataset \<Rightarrow> FilterNode list \<Rightarrow> error + expr list" where
  "FilterNode_expression dataset (SimpleRule field operator val) =
     (let col = column_expr dataset field; op = upper operator in
      if op \<in> {''='', ''==''} then Inr (EQ col (to_literal val))
      else if op \<in> {''!='', ''<>''} then Inr (NEQ col (to_literal val))
      else if op = ''>'' then Inr (GT col (to_literal val))
      else if op = ''<'' then Inr (LT col (to_literal val))
      else if op = ''>='' then Inr (GTE col (to_literal val))
      else if op = ''<='' then Inr (LTE col (to_literal val))
      else if op = ''LIKE'' then Inr (Like col (to_literal val))
      else if op = ''IN'' then
        (if \<not> is_Iterable val \<or> is_str_or_bytes val
         then Inl (ValueError ''IN operator requires a sequence of values'')
         else (case py_iter val of
                 Inl e \<Rightarrow> Inl e
               | Inr vs \<Rightarrow> Inr (In col (map to_literal vs))))
      else Inl (ValueError (''Unsupported operator: '' @ operator)))"
| "FilterNode_expression dataset (GroupRule combinator children) =
     (case child_exprs dataset children of
        Inl e \<Rightarrow> Inl e
      | Inr es \<Rightarrow>
          if es = [] then Inr (Boolean True)
          else if combinator = ''AND'' then exp_and es
          else exp_or es)"
| "child_exprs dataset [] = Inr []"
| "child_exprs dataset (child # rest) =
     (case FilterNode_expression dataset child of
        Inl e \<Rightarrow> Inl e
      | Inr x \<Rightarrow>
          (case child_exprs dataset rest of
             Inl e \<Rightarrow> Inl e
           | Inr xs \<Rightarrow> Inr (x # xs)))"


section \<open>The filter parser of \<^verbatim>\<open>advanced_filter_validator.py\<close>\<close>

text \<open>
  A JSON node is a dictionary with string keys. The parsers read the five keys
  \<^verbatim>\<open>field\<close>, \<^verbatim>\<open>operator\<close>, \<^verbatim>\<open>value\<close>, \<^verbatim>\<open>combinator\<close> and \<^verbatim>\<open>rules\<close>; a node is modelled by
  what it holds under each of them, \<open>None\<close> when the key is absent. The entries have the
  types the docstrings give them: \<^verbatim>\<open>field\<close>, \<^verbatim>\<open>operator\<close> and \<^verbatim>\<open>combinator\<close> are strings,
  \<^verbatim>\<open>value\<close> is any value and \<^verbatim>\<open>rules\<close> is a list of nodes.
\<close>

datatype json_node =
  JsonNode (json_field: "string option") (json_operator: "string option")
    (json_value: "pyval option") (json_combinator: "string option")
    (json_rules: "json_node list option")

text \<open>\<^verbatim>\<open>n.get("value")\<close>: Python's \<^verbatim>\<open>None\<close> when the key is absent. An absent \<^verbatim>\<open>rules\<close>
  key gives the empty list, \<^verbatim>\<open>n.get("rules", [])\<close>.\<close>

definition get_value :: "pyval option \<Rightarrow> pyval" where
  "get_value v = (case v of None \<Rightarrow> PNone | Some x \<Rightarrow> x)"

text \<open>The inner function \<^verbatim>\<open>parse\<close> of \<^verbatim>\<open>FilterExpression.from_json\<close>; the root of the
  \<^verbatim>\<open>FilterExpression\<close> it returns is the node \<open>parse\<close> returns.\<close>

fun parse :: "json_node \<Rightarrow> error + FilterNode"
  and parse_children :: "json_node list \<Rightarrow> error + FilterNode list" where
  "parse (JsonNode field operator val combinator rules) =
     (case field of
        Some f \<Rightarrow>
          (case operator of
             None \<Rightarrow> Inl (KeyError ''operator'')
           | Some op \<Rightarrow> Inr (SimpleRule f op (get_value val)))
      | None \<Rightarrow>
          (case combinator of
             None \<Rightarrow> Inl (ValueError (''Group rule missing '' @ quoted ''combinator''))
           | Some c \<Rightarrow>
               (case rules of
                  None \<Rightarrow> GroupRule_init c []
                | Some children_defs \<Rightarrow>
                    (case parse_children children_defs of
                       Inl e \<Rightarrow> Inl e
                     | Inr children \<Rightarrow> GroupRule_init c children))))"
| "parse_children [] = Inr []"
| "parse_children (child # rest) =
     (case parse child of
        Inl e \<Rightarrow> Inl e
      | Inr x \<Rightarrow>
          (case parse_children rest of
             Inl e \<Rightarrow> Inl e
           | Inr xs \<Rightarrow> Inr (x # xs)))"

definition from_json :: "json_node \<Rightarrow> error + FilterNode" where
  "from_json node = parse node"

section \<open>Validation rules\<close>

text \<open>
  The four rules of \<^verbatim>\<open>advanced_filter_validator.py\<close>; \<^verbatim>\<open>dataset_validator.py\<close> declares the
  same four classes with the same \<^verbatim>\<open>expression\<close> methods. \<open>RangeRule_init\<close> is the
  constructor \<^verbatim>\<open>RangeRule.__init__\<close>, which rejects a range with no bound.
\<close>

datatype ValidationRule =
    NotNullRule string
  | UniqueValuesRule "string list"
  | AllowedValuesRule string "pyval list"
  | RangeRule string "real option" "real option"

definition RangeRule_init :: "string \<Rightarrow> real option \<Rightarrow> real option \<Rightarrow> error + ValidationRule" where
  "RangeRule_init column minimum maximum =
     (if minimum = None \<and> maximum = None
      then Inl (ValueError ''At least one of minimum or maximum must be provided'')
      else Inr (RangeRule column minimum maximum))"

fun ValidationRule_expression :: "Dataset \<Rightarrow> ValidationRule \<Rightarrow> error + expr" where
  "ValidationRule_expression dataset (NotNullRule column) =
     (let col = column_expr dataset column in Inr (IsNot col Null))"
| "ValidationRule_expression dataset (UniqueValuesRule columns) =
     (let cols = map (column_expr dataset) columns;
          total_count = Count Star False;
          distinct_count =
            (if length cols = 1 then Count (cols ! 0) True
             else (let tuple_expr = Tuple cols in Count tuple_expr True))
      in Inr (EQ total_count distinct_count))"
| "ValidationRule_expression dataset (AllowedValuesRule column allowed) =
     (let col = column_expr dataset column;
          exprs = map (\<lambda>v. if is_str v then Literal_string v else Literal_number v) allowed
      in Inr (In col exprs))"
| "ValidationRule_expression dataset (RangeRule column minimum maximum) =
     (let col = column_expr dataset column;
          parts = [];
          parts = (case minimum of
                     None \<Rightarrow> parts
                   | Some m \<Rightarrow> parts @ [GTE col (Literal_number (PFloat m))]);
          parts = (case maximum of
                     None \<Rightarrow> parts
                   | Some m \<Rightarrow> parts @ [LTE col (Literal_number (PFloat m))])
      in if length parts > 1 then exp_and parts
         else (case parts of [] \<Rightarrow> Inl IndexError | p # _ \<Rightarrow> Inr p))"

fun rule_conditions :: "Dataset \<Rightarrow> ValidationRule list \<Rightarrow> error + expr list" where
  "rule_conditions dataset [] = Inr []"
| "rule_conditions dataset (rule # rest) =
     (case ValidationRule_expression dataset rule of
        Inl e \<Rightarrow> Inl e
      | Inr x \<Rightarrow>
          (case rule_conditions dataset rest of
             Inl e \<Rightarrow> Inl e
           | Inr xs \<Rightarrow> Inr (x # xs)))"

section \<open>The query builder\<close>

record QueryBuilder =
  dataset :: Dataset
  filter_expr :: FilterNode
  validation_rules :: "ValidationRule list"

definition combined_condition :: "QueryBuilder \<Rightarrow> error + expr" where
  "combined_condition qb =
     (case FilterNode_expression (dataset qb) (filter_expr qb) of
        Inl e \<Rightarrow> Inl e
      | Inr filter_condition \<Rightarrow>
          (case rule_conditions (dataset qb) (validation_rules qb) of
             Inl e \<Rightarrow> Inl e
           | Inr rule_conds \<Rightarrow>
               (let all_conditions =
                      (if rule_conds \<noteq> [] then [filter_condition] @ rule_conds
                       else [filter_condition])
                in if length all_conditions > 1 then exp_and all_conditions
                   else Inr (all_conditions ! 0))))"

text \<open>
  The column collection of \<^verbatim>\<open>generate_sql(select_all=False)\<close>. The list \<^verbatim>\<open>referenced\<close> is
  passed through: \<open>collect\<close> appends the leaves' fields to it, \<open>collect_rules\<close> the
  rules' columns, and \<open>unique_cols\<close> keeps of each name the first occurrence, \<open>seen\<close>
  being the set of names met so far.
\<close>

fun collect :: "FilterNode \<Rightarrow> string list \<Rightarrow> string list"
  and collect_children :: "FilterNode list \<Rightarrow> string list \<Rightarrow> string list" where
  "collect (SimpleRule field operator val) referenced = referenced @ [field]"
| "collect (GroupRule combinator children) referenced = collect_children children referenced"
| "collect_children [] referenced = referenced"
| "collect_children (child # rest) referenced =
     collect_children rest (collect child referenced)"

fun collect_rules :: "ValidationRule list \<Rightarrow> string list \<Rightarrow> string list" where
  "collect_rules [] referenced = referenced"
| "collect_rules (NotNullRule column # rest) referenced =
     collect_rules rest (referenced @ [column])"
| "collect_rules (AllowedValuesRule column allowed # rest) referenced =
     collect_rules rest (referenced @ [column])"
| "collect_rules (RangeRule column minimum maximum # rest) referenced =
     collect_rules rest (referenced @ [column])"
| "collect_rules (UniqueValuesRule columns # rest) referenced =
     collect_rules rest (referenced @ columns)"

fun unique_cols :: "string set \<Rightarrow> string list \<Rightarrow> string list" where
  "unique_cols seen [] = []"
| "unique_cols seen (c # cs) =
     (if c \<in> seen then unique_cols seen cs else c # unique_cols (insert c seen) cs)"

text \<open>\<open>Select columns table condition\<close> is the query
  \<^verbatim>\<open>exp.select(*columns).from_(table).where(condition)\<close>, which \<^verbatim>\<open>generate_sql\<close> hands to
  the renderer together with the dataset's dialect.\<close>

datatype query = Select "expr list" expr expr

definition generate_sql :: "QueryBuilder \<Rightarrow> bool \<Rightarrow> error + query \<times> string" where
  "generate_sql qb select_all =
     (let table = table_expr (dataset qb) in
      case combined_condition qb of
        Inl e \<Rightarrow> Inl e
      | Inr where_expr \<Rightarrow>
          if select_all then Inr (Select [Star] table where_expr, dialect (dataset qb))
          else
            (let referenced = [];
                 referenced = collect (filter_expr qb) referenced;
                 referenced = collect_rules (validation_rules qb) referenced;
                 cols = map (column_expr (dataset qb)) (unique_cols {} referenced)
             in Inr (Select cols table where_expr, dialect (dataset qb))))"


section \<open>The filter rules of \<^verbatim>\<open>class_based_filter.py\<close>\<close>

text \<open>
  One class for each operator. A comparison filter holds \<^verbatim>\<open>field\<close> and \<^verbatim>\<open>value\<close>;
  \<open>InFilter\<close> holds \<^verbatim>\<open>field\<close> and the tuple \<^verbatim>\<open>values\<close>, which its constructor builds with
  \<^verbatim>\<open>tuple(values)\<close>; \<open>LogicalGroup\<close> holds \<^verbatim>\<open>combinator\<close> and \<^verbatim>\<open>children\<close>.
\<close>

datatype BaseFilterRule =
    EqualsFilter string pyval
  | NotEqualsFilter string pyval
  | GreaterThanFilter string pyval
  | LessThanFilter string pyval
  | GreaterOrEqualFilter string pyval
  | LessOrEqualFilter string pyval
  | LikeFilter string pyval
  | InFilter string "pyval list"
  | LogicalGroup string "BaseFilterRule list"

definition InFilter_init :: "string \<Rightarrow> pyval \<Rightarrow> error + BaseFilterRule" where
  "InFilter_init field vals =
     (case py_iter vals of Inl e \<Rightarrow> Inl e | Inr vs \<Rightarrow> Inr (InFilter field vs))"

definition LogicalGroup_init :: "string \<Rightarrow> BaseFilterRule list \<Rightarrow> error + BaseFilterRule" where
  "LogicalGroup_init combinator children =
     (let combinator = upper combinator in
      if combinator \<notin> {''AND'', ''OR''}
      then Inl (ValueError (''combinator must be '' @ quoted ''AND'' @ '' or '' @ quoted ''OR''))
      else Inr (LogicalGroup combinator children))"

text \<open>\<^verbatim>\<open>SingleValueMixin._literal\<close> and \<^verbatim>\<open>ListValueMixin._literal_list\<close>.\<close>

definition literal :: "pyval \<Rightarrow> expr" where
  "literal v = (if is_str v then Literal_string v else Literal_number v)"

definition literal_list :: "pyval list \<Rightarrow> expr list" where
  "literal_list vals = map (\<lambda>v. if is_str v then Literal_string v else Literal_number v) vals"

fun BaseFilterRule_expression :: "Dataset \<Rightarrow> BaseFilterRule \<Rightarrow> error + expr"
  and group_child_exprs :: "Dataset \<Rightarrow> BaseFilterRule list \<Rightarrow> error + expr list" where
  "BaseFilterRule_expression ds (EqualsFilter field val) =
     (let col = column_expr ds field in Inr (EQ col (literal val)))"
| "BaseFilterRule_expression ds (NotEqualsFilter field val) =
     (let col = column_expr ds field in Inr (NEQ col (literal val)))"
| "BaseFilterRule_expression ds (GreaterThanFilter field val) =
     (let col = column_expr ds field in Inr (GT col (literal val)))"
| "BaseFilterRule_expression ds (LessThanFilter field val) =
     (let col = column_expr ds field in Inr (LT col (literal val)))"
| "BaseFilterRule_expression ds (GreaterOrEqualFilter field val) =
     (let col = column_expr ds field in Inr (GTE col (literal val)))"
| "BaseFilterRule_expression ds (LessOrEqualFilter field val) =
     (let col = column_expr ds field in Inr (LTE col (literal val)))"
| "BaseFilterRule_expression ds (LikeFilter field val) =
     (let col = column_expr ds field in Inr (Like col (literal val)))"
| "BaseFilterRule_expression ds (InFilter field vals) =
     (let col = column_expr ds field in Inr (In col (literal_list vals)))"
| "BaseFilterRule_expression ds (LogicalGroup combinator children) =
     (case group_child_exprs ds children of
        Inl e \<Rightarrow> Inl e
      | Inr es \<Rightarrow>
          if es = [] then Inr (Boolean True)
          else if combinator = ''AND'' then exp_and es else exp_or es)"
| "group_child_exprs ds [] = Inr []"
| "group_child_exprs ds (child # rest) =
     (case BaseFilterRule_expression ds child of
        Inl e \<Rightarrow> Inl e
      | Inr x \<Rightarrow>
          (case group_child_exprs ds rest of
             Inl e \<Rightarrow> Inl e
           | Inr xs \<Rightarrow> Inr (x # xs)))"

text \<open>\<^verbatim>\<open>FilterParser.OPERATOR_MAP\<close> maps an operator to the class of its rule, here to
  the constructor call \<^verbatim>\<open>rule_cls(field, value)\<close>.\<close>

definition OPERATOR_MAP :: "string \<Rightarrow> (string \<Rightarrow> pyval \<Rightarrow> error + BaseFilterRule) option" where
  "OPERATOR_MAP = map_of
     [(''='', \<lambda>f v. Inr (EqualsFilter f v)),
      (''=='', \<lambda>f v. Inr (EqualsFilter f v)),
      (''!='', \<lambda>f v. Inr (NotEqualsFilter f v)),
      (''<>'', \<lambda>f v. Inr (NotEqualsFilter f v)),
      (''>'', \<lambda>f v. Inr (GreaterThanFilter f v)),
      (''<'', \<lambda>f v. Inr (LessThanFilter f v)),
      (''>='', \<lambda>f v. Inr (GreaterOrEqualFilter f v)),
      (''<='', \<lambda>f v. Inr (LessOrEqualFilter f v)),
      (''LIKE'', \<lambda>f v. Inr (LikeFilter f v)),
      (''IN'', InFilter_init)]"

fun FilterParser_parse :: "json_node \<Rightarrow> error + BaseFilterRule"
  and FilterParser_parse_children :: "json_node list \<Rightarrow> error + BaseFilterRule list" where
  "FilterParser_parse (JsonNode field operator val combinator rules) =
     (case field of
        Some f \<Rightarrow>
          (case operator of
             None \<Rightarrow> Inl (KeyError ''operator'')
           | Some operator \<Rightarrow>
               (let op = upper operator; v = get_value val in
                case OPERATOR_MAP op of
                  None \<Rightarrow> Inl (ValueError (''Unsupported operator: '' @ op))
                | Some rule_cls \<Rightarrow>
                    if op = ''IN'' \<and> \<not> is_Iterable v
                    then Inl (ValueError ''IN operator requires a list of values'')
                    else rule_cls f v))
      | None \<Rightarrow>
          (if combinator = None \<or> combinator = Some []
           then Inl (ValueError (''Group node missing '' @ quoted ''combinator''))
           else
             (case rules of
                None \<Rightarrow> LogicalGroup_init (the combinator) []
              | Some children_defs \<Rightarrow>
                  (case FilterParser_parse_children children_defs of
                     Inl e \<Rightarrow> Inl e
                   | Inr children \<Rightarrow> LogicalGroup_init (the combinator) children))))"
| "FilterParser_parse_children [] = Inr []"
| "FilterParser_parse_children (child # rest) =
     (case FilterParser_parse child of
        Inl e \<Rightarrow> Inl e
      | Inr x \<Rightarrow>
          (case FilterParser_parse_children rest of
             Inl e \<Rightarrow> Inl e
           | Inr xs \<Rightarrow> Inr (x # xs)))"


section \<open>Reference definitions for the column projection\<close>

text \<open>
  The projection as the specification words it. \<open>preorder_fields\<close> lists the fields of
  the leaves met by a depth-first, pre-order traversal; \<open>rule_columns\<close> lists a rule's
  column, or the members of a uniqueness rule's columns in order; \<open>first_occurrences\<close>
  keeps the entries of a list that no earlier position holds.
\<close>

fun preorder_fields :: "FilterNode \<Rightarrow> string list" where
  "preorder_fields (SimpleRule field operator val) = [field]"
| "preorder_fields (GroupRule combinator children) = concat (map preorder_fields children)"

fun rule_columns :: "ValidationRule \<Rightarrow> string list" where
  "rule_columns (NotNullRule column) = [column]"
| "rule_columns (UniqueValuesRule columns) = columns"
| "rule_columns (AllowedValuesRule column allowed) = [column]"
| "rule_columns (RangeRule column minimum maximum) = [column]"

definition first_occurrences :: "'a list \<Rightarrow> 'a list" where
  "first_occurrences xs = map (\<lambda>i. xs ! i) (filter (\<lambda>i. xs ! i \<notin> set (take i xs)) [0..<length xs])"

section \<open>Compiling groups\<close>

lemma combine_single: "combine operator [e] = Inr e"
  by (simp add: combine_def)

lemma combine_many:
  "combine operator (e1 # e2 # es) =
     Inr (foldl (\<lambda>acc e. operator acc (wrap e)) (wrap e1) (e2 # es))"
  by (simp add: combine_def)

text \<open>The children compile to \<open>es\<close> exactly when each child compiles, in order, to the
  entry of \<open>es\<close> at its position.\<close>

lemma child_exprs_Inr:
  "child_exprs ds cs = Inr es \<longleftrightarrow> map (FilterNode_expression ds) cs = map Inr es"
proof (induction cs arbitrary: es)
  case Nil
  show ?case by auto
next
  case (Cons c cs)
  show ?case
  proof (cases "FilterNode_expression ds c")
    case (Inl e)
    then show ?thesis by (cases es) auto
  next
    case (Inr x)
    note x = this
    show ?thesis
    proof (cases "child_exprs ds cs")
      case (Inl e)
      with Cons.IH have "\<And>es'. map (FilterNode_expression ds) cs \<noteq> map Inr es'" by simp
      with x Inl show ?thesis by (cases es) auto
    next
      case (Inr xs)
      with Cons.IH [of xs] have m: "map (FilterNode_expression ds) cs = map Inr xs" by simp
      have inj: "\<And>ys. map Inr xs = (map Inr ys :: (error + expr) list) \<longleftrightarrow> xs = ys"
        by (simp add: inj_map_eq_map)
      from x Inr m inj show ?thesis by (cases es) auto
    qed
  qed
qed

lemma group_child_exprs_Inr:
  "group_child_exprs ds cs = Inr es \<longleftrightarrow> map (BaseFilterRule_expression ds) cs = map Inr es"
proof (induction cs arbitrary: es)
  case Nil
  show ?case by auto
next
  case (Cons c cs)
  show ?case
  proof (cases "BaseFilterRule_expression ds c")
    case (Inl e)
    then show ?thesis by (cases es) auto
  next
    case (Inr x)
    note x = this
    show ?thesis
    proof (cases "group_child_exprs ds cs")
      case (Inl e)
      with Cons.IH have "\<And>es'. map (BaseFilterRule_expression ds) cs \<noteq> map Inr es'" by simp
      with x Inl show ?thesis by (cases es) auto
    next
      case (Inr xs)
      with Cons.IH [of xs] have m: "map (BaseFilterRule_expression ds) cs = map Inr xs" by simp
      have inj: "\<And>ys. map Inr xs = (map Inr ys :: (error + expr) list) \<longleftrightarrow> xs = ys"
        by (simp add: inj_map_eq_map)
      from x Inr m inj show ?thesis by (cases es) auto
    qed
  qed
qed

lemma GroupRule_empty: "FilterNode_expression ds (GroupRule c []) = Inr (Boolean True)"
  by simp

lemma GroupRule_single:
  "FilterNode_expression ds (GroupRule c [child]) = FilterNode_expression ds child"
  by (cases "FilterNode_expression ds child") (simp_all add: exp_and_def exp_or_def combine_single)

lemma GroupRule_many:
  assumes "map (FilterNode_expression ds) children = map Inr (e1 # e2 # es)"
  shows "FilterNode_expression ds (GroupRule c children) =
           Inr (foldl (\<lambda>acc e. (if c = ''AND'' then And else Or) acc (wrap e)) (wrap e1) (e2 # es))"
proof -
  from assms have "child_exprs ds children = Inr (e1 # e2 # es)"
    by (simp only: child_exprs_Inr)
  then show ?thesis
    by (simp add: exp_and_def exp_or_def combine_many)
qed

lemma LogicalGroup_empty: "BaseFilterRule_expression ds (LogicalGroup c []) = Inr (Boolean True)"
  by simp

lemma LogicalGroup_single:
  "BaseFilterRule_expression ds (LogicalGroup c [child]) = BaseFilterRule_expression ds child"
  by (cases "BaseFilterRule_expression ds child")
    (simp_all add: exp_and_def exp_or_def combine_single)

lemma LogicalGroup_many:
  assumes "map (BaseFilterRule_expression ds) children = map Inr (e1 # e2 # es)"
  shows "BaseFilterRule_expression ds (LogicalGroup c children) =
           Inr (foldl (\<lambda>acc e. (if c = ''AND'' then And else Or) acc (wrap e)) (wrap e1) (e2 # es))"
proof -
  from assms have "group_child_exprs ds children = Inr (e1 # e2 # es)"
    by (simp only: group_child_exprs_Inr)
  then show ?thesis
    by (simp add: exp_and_def exp_or_def combine_many)
qed

text \<open>
  C1. For a group whose combinator is \<open>AND\<close> or \<open>OR\<close>, in both filter models
  (\<^verbatim>\<open>GroupRule\<close> and \<^verbatim>\<open>LogicalGroup\<close>): with no child the group compiles to the predicate
  \<^verbatim>\<open>TRUE\<close>; with one child it compiles to whatever that child compiles to, with no
  connective and no parentheses around it; and when its children compile, in
  declaration order, to two or more predicates \<open>p, q, ...\<close>, it compiles to the left
  fold of these predicates under the declared connective, an operand that is itself a
  connective standing in parentheses.
\<close>

theorem group_compiles_to_fold:
  assumes "c = ''AND'' \<or> c = ''OR''"
  shows "FilterNode_expression ds (GroupRule c []) = Inr (Boolean True)
       \<and> FilterNode_expression ds (GroupRule c [child]) = FilterNode_expression ds child
       \<and> (map (FilterNode_expression ds) children = map Inr (p # q # ps) \<longrightarrow>
            FilterNode_expression ds (GroupRule c children) =
              Inr (foldl (\<lambda>acc e. (if c = ''AND'' then And else Or) acc (wrap e))
                     (wrap p) (q # ps)))
       \<and> BaseFilterRule_expression ds (LogicalGroup c []) = Inr (Boolean True)
       \<and> BaseFilterRule_expression ds (LogicalGroup c [child']) =
            BaseFilterRule_expression ds child'
       \<and> (map (BaseFilterRule_expression ds) children' = map Inr (p # q # ps) \<longrightarrow>
            BaseFilterRule_expression ds (LogicalGroup c children') =
              Inr (foldl (\<lambda>acc e. (if c = ''AND'' then And else Or) acc (wrap e))
                     (wrap p) (q # ps)))"
  using GroupRule_many [of ds children p q ps c]
    LogicalGroup_many [of ds children' p q ps c]
  by (simp only: GroupRule_empty GroupRule_single LogicalGroup_empty LogicalGroup_single)
    blast

theorem group_compiles_to_fold_witness:
  "FilterNode_expression \<lparr>table_name = ''t'', dialect = ''duckdb''\<rparr> (GroupRule ''OR'' [])
     = Inr (Boolean True)
   \<and> FilterNode_expression \<lparr>table_name = ''t'', dialect = ''duckdb''\<rparr>
       (GroupRule ''OR'' [SimpleRule ''age'' ''>'' (PInt 18)])
     = Inr (GT (Column ''age'' ''t'') (Literal (PInt 18) False))
   \<and> FilterNode_expression \<lparr>table_name = ''t'', dialect = ''duckdb''\<rparr>
       (GroupRule ''OR''
          [SimpleRule ''a'' ''='' (PInt 1),
           GroupRule ''AND'' [SimpleRule ''b'' ''<'' (PInt 2), SimpleRule ''c'' ''>'' (PInt 3)],
           SimpleRule ''d'' ''like'' (PStr ''x%'')])
     = Inr (Or (Or (EQ (Column ''a'' ''t'') (Literal (PInt 1) False))
                   (Paren (And (LT (Column ''b'' ''t'') (Literal (PInt 2) False))
                               (GT (Column ''c'' ''t'') (Literal (PInt 3) False)))))
               (Like (Column ''d'' ''t'') (Literal (PStr ''x%'') True)))
   \<and> BaseFilterRule_expression \<lparr>table_name = ''t'', dialect = ''duckdb''\<rparr>
       (LogicalGroup ''OR'' [])
     = Inr (Boolean True)
   \<and> BaseFilterRule_expression \<lparr>table_name = ''t'', dialect = ''duckdb''\<rparr>
       (LogicalGroup ''OR'' [GreaterThanFilter ''age'' (PInt 18)])
     = Inr (GT (Column ''age'' ''t'') (Literal (PInt 18) False))
   \<and> BaseFilterRule_expression \<lparr>table_name = ''t'', dialect = ''duckdb''\<rparr>
       (LogicalGroup ''OR''
          [EqualsFilter ''a'' (PInt 1),
           LogicalGroup ''AND'' [LessThanFilter ''b'' (PInt 2), GreaterThanFilter ''c'' (PInt 3)],
           LikeFilter ''d'' (PStr ''x%'')])
     = Inr (Or (Or (EQ (Column ''a'' ''t'') (Literal (PInt 1) False))
                   (Paren (And (LT (Column ''b'' ''t'') (Literal (PInt 2) False))
                               (GT (Column ''c'' ''t'') (Literal (PInt 3) False)))))
               (Like (Column ''d'' ''t'') (Literal (PStr ''x%'') True)))"
proof -
  let ?ds = "\<lparr>table_name = ''t'', dialect = ''duckdb''\<rparr>"
  let ?a = "EQ (Column ''a'' ''t'') (Literal (PInt 1) False)"
  let ?bc = "And (LT (Column ''b'' ''t'') (Literal (PInt 2) False))
                 (GT (Column ''c'' ''t'') (Literal (PInt 3) False))"
  let ?d = "Like (Column ''d'' ''t'') (Literal (PStr ''x%'') True)"
  have c: "''OR'' = ''AND'' \<or> ''OR'' = ''OR''" by simp
  have l: "FilterNode_expression ?ds (SimpleRule ''age'' ''>'' (PInt 18))
             = Inr (GT (Column ''age'' ''t'') (Literal (PInt 18) False))"
    by (simp add: upper_def upper_char_def column_expr_def to_literal_def Literal_number_def)
  have l': "BaseFilterRule_expression ?ds (GreaterThanFilter ''age'' (PInt 18))
             = Inr (GT (Column ''age'' ''t'') (Literal (PInt 18) False))"
    by (simp add: column_expr_def literal_def Literal_number_def)
  have m: "map (FilterNode_expression ?ds)
             [SimpleRule ''a'' ''='' (PInt 1),
              GroupRule ''AND'' [SimpleRule ''b'' ''<'' (PInt 2), SimpleRule ''c'' ''>'' (PInt 3)],
              SimpleRule ''d'' ''like'' (PStr ''x%'')]
           = map Inr [?a, ?bc, ?d]"
    by (simp add: upper_def upper_char_def column_expr_def to_literal_def Literal_number_def
        Literal_string_def exp_and_def combine_def)
  have m': "map (BaseFilterRule_expression ?ds)
             [EqualsFilter ''a'' (PInt 1),
              LogicalGroup ''AND'' [LessThanFilter ''b'' (PInt 2), GreaterThanFilter ''c'' (PInt 3)],
              LikeFilter ''d'' (PStr ''x%'')]
           = map Inr [?a, ?bc, ?d]"
    by (simp add: column_expr_def literal_def Literal_number_def
        Literal_string_def exp_and_def combine_def)
  from group_compiles_to_fold [OF c, where ds = ?ds and p = ?a and q = ?bc and ps = "[?d]"
      and child = "SimpleRule ''age'' ''>'' (PInt 18)"
      and child' = "GreaterThanFilter ''age'' (PInt 18)"
      and children = "[SimpleRule ''a'' ''='' (PInt 1),
              GroupRule ''AND'' [SimpleRule ''b'' ''<'' (PInt 2), SimpleRule ''c'' ''>'' (PInt 3)],
              SimpleRule ''d'' ''like'' (PStr ''x%'')]"
      and children' = "[EqualsFilter ''a'' (PInt 1),
              LogicalGroup ''AND'' [LessThanFilter ''b'' (PInt 2), GreaterThanFilter ''c'' (PInt 3)],
              LikeFilter ''d'' (PStr ''x%'')]"] l l' m m'
  show ?thesis by simp
qed


section \<open>Compiling leaves\<close>

lemma py_iter_Inr_Iterable: "py_iter v = Inr vs \<Longrightarrow> is_Iterable v"
  by (cases v) auto

lemma SimpleRule_comparisons:
  "(upper operator \<in> {''='', ''==''} \<longrightarrow>
      FilterNode_expression ds (SimpleRule field operator val) =
        Inr (EQ (column_expr ds field) (to_literal val)))
 \<and> (upper operator \<in> {''!='', ''<>''} \<longrightarrow>
      FilterNode_expression ds (SimpleRule field operator val) =
        Inr (NEQ (column_expr ds field) (to_literal val)))
 \<and> (upper operator = ''>'' \<longrightarrow>
      FilterNode_expression ds (SimpleRule field operator val) =
        Inr (GT (column_expr ds field) (to_literal val)))
 \<and> (upper operator = ''<'' \<longrightarrow>
      FilterNode_expression ds (SimpleRule field operator val) =
        Inr (LT (column_expr ds field) (to_literal val)))
 \<and> (upper operator = ''>='' \<longrightarrow>
      FilterNode_expression ds (SimpleRule field operator val) =
        Inr (GTE (column_expr ds field) (to_literal val)))
 \<and> (upper operator = ''<='' \<longrightarrow>
      FilterNode_expression ds (SimpleRule field operator val) =
        Inr (LTE (column_expr ds field) (to_literal val)))
 \<and> (upper operator = ''LIKE'' \<longrightarrow>
      FilterNode_expression ds (SimpleRule field operator val) =
        Inr (Like (column_expr ds field) (to_literal val)))"
  by (simp add: Let_def)

lemma SimpleRule_membership:
  "upper operator = ''IN'' \<Longrightarrow> py_iter val = Inr vs \<Longrightarrow> \<not> is_str_or_bytes val \<Longrightarrow>
     FilterNode_expression ds (SimpleRule field operator val) =
       Inr (In (column_expr ds field) (map to_literal vs))"
  by (simp add: Let_def py_iter_Inr_Iterable)

lemma SimpleRule_unsupported:
  "upper operator \<notin> {''='', ''=='', ''!='', ''<>'', ''>'', ''<'', ''>='', ''<='', ''LIKE'', ''IN''} \<Longrightarrow>
     FilterNode_expression ds (SimpleRule field operator val) =
       Inl (ValueError (''Unsupported operator: '' @ operator))"
  by (simp add: Let_def)

lemma OPERATOR_MAP_simps:
  "OPERATOR_MAP ''='' = Some (\<lambda>f v. Inr (EqualsFilter f v))"
  "OPERATOR_MAP ''=='' = Some (\<lambda>f v. Inr (EqualsFilter f v))"
  "OPERATOR_MAP ''!='' = Some (\<lambda>f v. Inr (NotEqualsFilter f v))"
  "OPERATOR_MAP ''<>'' = Some (\<lambda>f v. Inr (NotEqualsFilter f v))"
  "OPERATOR_MAP ''>'' = Some (\<lambda>f v. Inr (GreaterThanFilter f v))"
  "OPERATOR_MAP ''<'' = Some (\<lambda>f v. Inr (LessThanFilter f v))"
  "OPERATOR_MAP ''>='' = Some (\<lambda>f v. Inr (GreaterOrEqualFilter f v))"
  "OPERATOR_MAP ''<='' = Some (\<lambda>f v. Inr (LessOrEqualFilter f v))"
  "OPERATOR_MAP ''LIKE'' = Some (\<lambda>f v. Inr (LikeFilter f v))"
  "OPERATOR_MAP ''IN'' = Some InFilter_init"
  by (simp_all add: OPERATOR_MAP_def)

lemma OPERATOR_MAP_None:
  "op \<notin> {''='', ''=='', ''!='', ''<>'', ''>'', ''<'', ''>='', ''<='', ''LIKE'', ''IN''} \<Longrightarrow>
     OPERATOR_MAP op = None"
  by (simp add: OPERATOR_MAP_def)

lemma FilterParser_comparisons:
  "(upper operator \<in> {''='', ''==''} \<longrightarrow>
      FilterParser_parse (JsonNode (Some field) (Some operator) v c rs) =
        Inr (EqualsFilter field (get_value v)))
 \<and> (upper operator \<in> {''!='', ''<>''} \<longrightarrow>
      FilterParser_parse (JsonNode (Some field) (Some operator) v c rs) =
        Inr (NotEqualsFilter field (get_value v)))
 \<and> (upper operator = ''>'' \<longrightarrow>
      FilterParser_parse (JsonNode (Some field) (Some operator) v c rs) =
        Inr (GreaterThanFilter field (get_value v)))
 \<and> (upper operator = ''<'' \<longrightarrow>
      FilterParser_parse (JsonNode (Some field) (Some operator) v c rs) =
        Inr (LessThanFilter field (get_value v)))
 \<and> (upper operator = ''>='' \<longrightarrow>
      FilterParser_parse (JsonNode (Some field) (Some operator) v c rs) =
        Inr (GreaterOrEqualFilter field (get_value v)))
 \<and> (upper operator = ''<='' \<longrightarrow>
      FilterParser_parse (JsonNode (Some field) (Some operator) v c rs) =
        Inr (LessOrEqualFilter field (get_value v)))
 \<and> (upper operator = ''LIKE'' \<longrightarrow>
      FilterParser_parse (JsonNode (Some field) (Some operator) v c rs) =
        Inr (LikeFilter field (get_value v)))"
  by (auto simp add: Let_def OPERATOR_MAP_simps)

lemma FilterParser_membership:
  "upper operator = ''IN'' \<Longrightarrow> py_iter (get_value v) = Inr vs \<Longrightarrow>
     FilterParser_parse (JsonNode (Some field) (Some operator) v c rs) = Inr (InFilter field vs)"
  by (simp add: Let_def OPERATOR_MAP_simps py_iter_Inr_Iterable InFilter_init_def)

lemma FilterParser_unsupported:
  "upper operator \<notin> {''='', ''=='', ''!='', ''<>'', ''>'', ''<'', ''>='', ''<='', ''LIKE'', ''IN''} \<Longrightarrow>
     FilterParser_parse (JsonNode (Some field) (Some operator) v c rs) =
       Inl (ValueError (''Unsupported operator: '' @ upper operator))"
proof -
  assume "upper operator \<notin> {''='', ''=='', ''!='', ''<>'', ''>'', ''<'', ''>='', ''<='', ''LIKE'', ''IN''}"
  then have "OPERATOR_MAP (upper operator) = None" by (rule OPERATOR_MAP_None)
  then show ?thesis by (simp add: Let_def)
qed

lemma comparison_filter_expressions:
  "BaseFilterRule_expression ds (EqualsFilter field x) = Inr (EQ (column_expr ds field) (literal x))"
  "BaseFilterRule_expression ds (NotEqualsFilter field x) = Inr (NEQ (column_expr ds field) (literal x))"
  "BaseFilterRule_expression ds (GreaterThanFilter field x) = Inr (GT (column_expr ds field) (literal x))"
  "BaseFilterRule_expression ds (LessThanFilter field x) = Inr (LT (column_expr ds field) (literal x))"
  "BaseFilterRule_expression ds (GreaterOrEqualFilter field x) = Inr (GTE (column_expr ds field) (literal x))"
  "BaseFilterRule_expression ds (LessOrEqualFilter field x) = Inr (LTE (column_expr ds field) (literal x))"
  "BaseFilterRule_expression ds (LikeFilter field x) = Inr (Like (column_expr ds field) (literal x))"
  "BaseFilterRule_expression ds (InFilter field xs) = Inr (In (column_expr ds field) (literal_list xs))"
  by (simp_all add: Let_def)

text \<open>
  C2. The operator of a leaf is upper-cased before it is compared, so the statements below
  are about \<open>upper operator\<close>. In \<^verbatim>\<open>SimpleRule.expression\<close> each of the ten operators
  gives its predicate over the qualified column and the coerced value: \<open>EQ\<close> for \<^verbatim>\<open>=\<close> and
  \<^verbatim>\<open>==\<close>, \<open>NEQ\<close> for \<^verbatim>\<open>!=\<close> and \<^verbatim>\<open><>\<close>, \<open>GT\<close>, \<open>LT\<close>, \<open>GTE\<close>, \<open>LTE\<close>, \<open>Like\<close>, and for \<^verbatim>\<open>IN\<close> the
  membership predicate \<open>In\<close> over the coerced members of the value (the value being a
  sequence that is not a single string or bytes object); any other operator fails with
  the error \<^verbatim>\<open>Unsupported operator: \<close> followed by the operator. In \<^verbatim>\<open>FilterParser\<close> each
  of the ten operators parses to the rule class of \<^verbatim>\<open>OPERATOR_MAP\<close>, whose \<^verbatim>\<open>expression\<close>
  is the same predicate, and any other operator fails at parsing with the same message
  and the upper-cased operator.
\<close>

theorem operator_coverage:
  "(upper operator \<in> {''='', ''==''} \<longrightarrow>
      FilterNode_expression ds (SimpleRule field operator val) =
        Inr (EQ (column_expr ds field) (to_literal val)))
 \<and> (upper operator \<in> {''!='', ''<>''} \<longrightarrow>
      FilterNode_expression ds (SimpleRule field operator val) =
        Inr (NEQ (column_expr ds field) (to_literal val)))
 \<and> (upper operator = ''>'' \<longrightarrow>
      FilterNode_expression ds (SimpleRule field operator val) =
        Inr (GT (column_expr ds field) (to_literal val)))
 \<and> (upper operator = ''<'' \<longrightarrow>
      FilterNode_expression ds (SimpleRule field operator val) =
        Inr (LT (column_expr ds field) (to_literal val)))
 \<and> (upper operator = ''>='' \<longrightarrow>
      FilterNode_expression ds (SimpleRule field operator val) =
        Inr (GTE (column_expr ds field) (to_literal val)))
 \<and> (upper operator = ''<='' \<longrightarrow>
      FilterNode_expression ds (SimpleRule field operator val) =
        Inr (LTE (column_expr ds field) (to_literal val)))
 \<and> (upper operator = ''LIKE'' \<longrightarrow>
      FilterNode_expression ds (SimpleRule field operator val) =
        Inr (Like (column_expr ds field) (to_literal val)))
 \<and> (upper operator = ''IN'' \<and> py_iter val = Inr vs \<and> \<not> is_str_or_bytes val \<longrightarrow>
      FilterNode_expression ds (SimpleRule field operator val) =
        Inr (In (column_expr ds field) (map to_literal vs)))
 \<and> (upper operator \<notin> {''='', ''=='', ''!='', ''<>'', ''>'', ''<'', ''>='', ''<='', ''LIKE'', ''IN''} \<longrightarrow>
      FilterNode_expression ds (SimpleRule field operator val) =
        Inl (ValueError (''Unsupported operator: '' @ operator)))
 \<and> (upper operator \<in> {''='', ''==''} \<longrightarrow>
      FilterParser_parse (JsonNode (Some field) (Some operator) v c rs) =
        Inr (EqualsFilter field (get_value v)))
 \<and> (upper operator \<in> {''!='', ''<>''} \<longrightarrow>
      FilterParser_parse (JsonNode (Some field) (Some operator) v c rs) =
        Inr (NotEqualsFilter field (get_value v)))
 \<and> (upper operator = ''>'' \<longrightarrow>
      FilterParser_parse (JsonNode (Some field) (Some operator) v c rs) =
        Inr (GreaterThanFilter field (get_value v)))
 \<and> (upper operator = ''<'' \<longrightarrow>
      FilterParser_parse (JsonNode (Some field) (Some operator) v c rs) =
        Inr (LessThanFilter field (get_value v)))
 \<and> (upper operator = ''>='' \<longrightarrow>
      FilterParser_parse (JsonNode (Some field) (Some operator) v c rs) =
        Inr (GreaterOrEqualFilter field (get_value v)))
 \<and> (upper operator = ''<='' \<longrightarrow>
      FilterParser_parse (JsonNode (Some field) (Some operator) v c rs) =
        Inr (LessOrEqualFilter field (get_value v)))
 \<and> (upper operator = ''LIKE'' \<longrightarrow>
      FilterParser_parse (JsonNode (Some field) (Some operator) v c rs) =
        Inr (LikeFilter field (get_value v)))
 \<and> (upper operator = ''IN'' \<and> py_iter (get_value v) = Inr ws \<longrightarrow>
      FilterParser_parse (JsonNode (Some field) (Some operator) v c rs) =
        Inr (InFilter field ws))
 \<and> (upper operator \<notin> {''='', ''=='', ''!='', ''<>'', ''>'', ''<'', ''>='', ''<='', ''LIKE'', ''IN''} \<longrightarrow>
      FilterParser_parse (JsonNode (Some field) (Some operator) v c rs) =
        Inl (ValueError (''Unsupported operator: '' @ upper operator)))
 \<and> BaseFilterRule_expression ds (EqualsFilter field x) =
      Inr (EQ (column_expr ds field) (literal x))
 \<and> BaseFilterRule_expression ds (NotEqualsFilter field x) =
      Inr (NEQ (column_expr ds field) (literal x))
 \<and> BaseFilterRule_expression ds (GreaterThanFilter field x) =
      Inr (GT (column_expr ds field) (literal x))
 \<and> BaseFilterRule_expression ds (LessThanFilter field x) =
      Inr (LT (column_expr ds field) (literal x))
 \<and> BaseFilterRule_expression ds (GreaterOrEqualFilter field x) =
      Inr (GTE (column_expr ds field) (literal x))
 \<and> BaseFilterRule_expression ds (LessOrEqualFilter field x) =
      Inr (LTE (column_expr ds field) (literal x))
 \<and> BaseFilterRule_expression ds (LikeFilter field x) =
      Inr (Like (column_expr ds field) (literal x))
 \<and> BaseFilterRule_expression ds (InFilter field xs) =
      Inr (In (column_expr ds field) (map literal xs))"
proof -
  have lits: "literal_list xs = map literal xs"
    by (simp add: literal_list_def literal_def)
  have a: "upper operator = ''IN'' \<and> py_iter val = Inr vs \<and> \<not> is_str_or_bytes val \<longrightarrow>
      FilterNode_expression ds (SimpleRule field operator val) =
        Inr (In (column_expr ds field) (map to_literal vs))"
    using SimpleRule_membership [of operator val vs ds field] by blast
  have b: "upper operator \<notin> {''='', ''=='', ''!='', ''<>'', ''>'', ''<'', ''>='', ''<='', ''LIKE'', ''IN''} \<longrightarrow>
      FilterNode_expression ds (SimpleRule field operator val) =
        Inl (ValueError (''Unsupported operator: '' @ operator))"
    using SimpleRule_unsupported [of operator ds field val] by blast
  have c: "upper operator = ''IN'' \<and> py_iter (get_value v) = Inr ws \<longrightarrow>
      FilterParser_parse (JsonNode (Some field) (Some operator) v c rs) =
        Inr (InFilter field ws)"
    using FilterParser_membership [of operator v ws field c rs] by blast
  have d: "upper operator \<notin> {''='', ''=='', ''!='', ''<>'', ''>'', ''<'', ''>='', ''<='', ''LIKE'', ''IN''} \<longrightarrow>
      FilterParser_parse (JsonNode (Some field) (Some operator) v c rs) =
        Inl (ValueError (''Unsupported operator: '' @ upper operator))"
    using FilterParser_unsupported [of operator field v c rs] by blast
  have e: "BaseFilterRule_expression ds (InFilter field xs) =
      Inr (In (column_expr ds field) (map literal xs))"
    using comparison_filter_expressions(8) [of ds field xs] by (simp only: lits)
  show ?thesis
    using SimpleRule_comparisons [of operator ds field val] a b
      FilterParser_comparisons [of operator field v c rs] c d
      comparison_filter_expressions(1-7) [of ds field x] e
    apply -
    apply (elim conjE)
    apply (intro conjI)
    apply assumption+
    done
qed

theorem operator_coverage_witness:
  "FilterNode_expression \<lparr>table_name = ''t'', dialect = ''duckdb''\<rparr> (SimpleRule ''age'' ''='' (PInt 18)) =
       Inr (EQ (Column ''age'' ''t'') (Literal (PInt 18) False))
   \<and> FilterParser_parse (JsonNode (Some ''age'') (Some ''='') (Some (PInt 18)) None None) =
       Inr (EqualsFilter ''age'' (PInt 18))
   \<and> BaseFilterRule_expression \<lparr>table_name = ''t'', dialect = ''duckdb''\<rparr> (EqualsFilter ''age'' (PInt 18)) =
       Inr (EQ (Column ''age'' ''t'') (Literal (PInt 18) False))
   \<and> FilterNode_expression \<lparr>table_name = ''t'', dialect = ''duckdb''\<rparr> (SimpleRule ''age'' ''=='' (PInt 18)) =
       Inr (EQ (Column ''age'' ''t'') (Literal (PInt 18) False))
   \<and> FilterParser_parse (JsonNode (Some ''age'') (Some ''=='') (Some (PInt 18)) None None) =
       Inr (EqualsFilter ''age'' (PInt 18))
   \<and> BaseFilterRule_expression \<lparr>table_name = ''t'', dialect = ''duckdb''\<rparr> (EqualsFilter ''age'' (PInt 18)) =
       Inr (EQ (Column ''age'' ''t'') (Literal (PInt 18) False))
   \<and> FilterNode_expression \<lparr>table_name = ''t'', dialect = ''duckdb''\<rparr> (SimpleRule ''age'' ''!='' (PInt 18)) =
       Inr (NEQ (Column ''age'' ''t'') (Literal (PInt 18) False))
   \<and> FilterParser_parse (JsonNode (Some ''age'') (Some ''!='') (Some (PInt 18)) None None) =
       Inr (NotEqualsFilter ''age'' (PInt 18))
   \<and> BaseFilterRule_expression \<lparr>table_name = ''t'', dialect = ''duckdb''\<rparr> (NotEqualsFilter ''age'' (PInt 18)) =
       Inr (NEQ (Column ''age'' ''t'') (Literal (PInt 18) False))
   \<and> FilterNode_expression \<lparr>table_name = ''t'', dialect = ''duckdb''\<rparr> (SimpleRule ''age'' ''<>'' (PInt 18)) =
       Inr (NEQ (Column ''age'' ''t'') (Literal (PInt 18) False))
   \<and> FilterParser_parse (JsonNode (Some ''age'') (Some ''<>'') (Some (PInt 18)) None None) =
       Inr (NotEqualsFilter ''age'' (PInt 18))
   \<and> BaseFilterRule_expression \<lparr>table_name = ''t'', dialect = ''duckdb''\<rparr> (NotEqualsFilter ''age'' (PInt 18)) =
       Inr (NEQ (Column ''age'' ''t'') (Literal (PInt 18) False))
   \<and> FilterNode_expression \<lparr>table_name = ''t'', dialect = ''duckdb''\<rparr> (SimpleRule ''age'' ''>'' (PInt 18)) =
       Inr (GT (Column ''age'' ''t'') (Literal (PInt 18) False))
   \<and> FilterParser_parse (JsonNode (Some ''age'') (Some ''>'') (Some (PInt 18)) None None) =
       Inr (GreaterThanFilter ''age'' (PInt 18))
   \<and> BaseFilterRule_expression \<lparr>table_name = ''t'', dialect = ''duckdb''\<rparr> (GreaterThanFilter ''age'' (PInt 18)) =
       Inr (GT (Column ''age'' ''t'') (Literal (PInt 18) False))
   \<and> FilterNode_expression \<lparr>table_name = ''t'', dialect = ''duckdb''\<rparr> (SimpleRule ''age'' ''<'' (PInt 18)) =
       Inr (LT (Column ''age'' ''t'') (Literal (PInt 18) False))
   \<and> FilterParser_parse (JsonNode (Some ''age'') (Some ''<'') (Some (PInt 18)) None None) =
       Inr (LessThanFilter ''age'' (PInt 18))
   \<and> BaseFilterRule_expression \<lparr>table_name = ''t'', dialect = ''duckdb''\<rparr> (LessThanFilter ''age'' (PInt 18)) =
       Inr (LT (Column ''age'' ''t'') (Literal (PInt 18) False))
   \<and> FilterNode_expression \<lparr>table_name = ''t'', dialect = ''duckdb''\<rparr> (SimpleRule ''age'' ''>='' (PInt 18)) =
       Inr (GTE (Column ''age'' ''t'') (Literal (PInt 18) False))
   \<and> FilterParser_parse (JsonNode (Some ''age'') (Some ''>='') (Some (PInt 18)) None None) =
       Inr (GreaterOrEqualFilter ''age'' (PInt 18))
   \<and> BaseFilterRule_expression \<lparr>table_name = ''t'', dialect = ''duckdb''\<rparr> (GreaterOrEqualFilter ''age'' (PInt 18)) =
       Inr (GTE (Column ''age'' ''t'') (Literal (PInt 18) False))
   \<and> FilterNode_expression \<lparr>table_name = ''t'', dialect = ''duckdb''\<rparr> (SimpleRule ''age'' ''<='' (PInt 18)) =
       Inr (LTE (Column ''age'' ''t'') (Literal (PInt 18) False))
   \<and> FilterParser_parse (JsonNode (Some ''age'') (Some ''<='') (Some (PInt 18)) None None) =
       Inr (LessOrEqualFilter ''age'' (PInt 18))
   \<and> BaseFilterRule_expression \<lparr>table_name = ''t'', dialect = ''duckdb''\<rparr> (LessOrEqualFilter ''age'' (PInt 18)) =
       Inr (LTE (Column ''age'' ''t'') (Literal (PInt 18) False))
   \<and> FilterNode_expression \<lparr>table_name = ''t'', dialect = ''duckdb''\<rparr> (SimpleRule ''age'' ''like'' (PInt 18)) =
       Inr (Like (Column ''age'' ''t'') (Literal (PInt 18) False))
   \<and> FilterParser_parse (JsonNode (Some ''age'') (Some ''like'') (Some (PInt 18)) None None) =
       Inr (LikeFilter ''age'' (PInt 18))
   \<and> BaseFilterRule_expression \<lparr>table_name = ''t'', dialect = ''duckdb''\<rparr> (LikeFilter ''age'' (PInt 18)) =
       Inr (Like (Column ''age'' ''t'') (Literal (PInt 18) False))
   \<and> FilterNode_expression \<lparr>table_name = ''t'', dialect = ''duckdb''\<rparr> (SimpleRule ''age'' ''in'' (PList [PStr ''a'', PInt 2])) =
       Inr (In (Column ''age'' ''t'') [Literal (PStr ''a'') True, Literal (PInt 2) False])
   \<and> FilterParser_parse (JsonNode (Some ''age'') (Some ''in'') (Some (PList [PStr ''a'', PInt 2])) None None) =
       Inr (InFilter ''age'' [PStr ''a'', PInt 2])
   \<and> BaseFilterRule_expression \<lparr>table_name = ''t'', dialect = ''duckdb''\<rparr> (InFilter ''age'' [PStr ''a'', PInt 2]) =
       Inr (In (Column ''age'' ''t'') [Literal (PStr ''a'') True, Literal (PInt 2) False])
   \<and> FilterNode_expression \<lparr>table_name = ''t'', dialect = ''duckdb''\<rparr> (SimpleRule ''age'' ''Between'' (PInt 18)) =
       Inl (ValueError ''Unsupported operator: Between'')
   \<and> FilterParser_parse (JsonNode (Some ''age'') (Some ''Between'') (Some (PInt 18)) None None) =
       Inl (ValueError ''Unsupported operator: BETWEEN'')"
proof -
  let ?ds = "\<lparr>table_name = ''t'', dialect = ''duckdb''\<rparr>"
  note ta = operator_coverage [where operator = "''=''" and ds = "?ds" and field = "''age''"
        and val = "PInt 18" and vs = "[]" and v = "Some (PInt 18)" and ws = "[]"
        and c = None and rs = None and x = "PInt 18" and xs = "[]"]
  have ha: "upper ''='' \<in> {''='', ''==''}"
    by (simp add: upper_def upper_char_def)
  from ta have pa: "upper ''='' \<in> {''='', ''==''} \<longrightarrow>
     FilterNode_expression ?ds (SimpleRule ''age'' ''='' (PInt 18)) =
       Inr (EQ (column_expr ?ds ''age'') (to_literal (PInt 18)))"
    by (elim conjE)
  from ta have qa: "upper ''='' \<in> {''='', ''==''} \<longrightarrow>
     FilterParser_parse (JsonNode (Some ''age'') (Some ''='') (Some (PInt 18)) None None) =
       Inr (EqualsFilter ''age'' (get_value (Some (PInt 18))))"
    by (elim conjE)
  from ta have ra: "BaseFilterRule_expression ?ds (EqualsFilter ''age'' (PInt 18)) =
       Inr (EQ (column_expr ?ds ''age'') (literal (PInt 18)))"
    by (elim conjE)
  from ha pa qa ra
  have wa: "FilterNode_expression ?ds (SimpleRule ''age'' ''='' (PInt 18)) =
       Inr (EQ (Column ''age'' ''t'') (Literal (PInt 18) False))
     \<and> FilterParser_parse (JsonNode (Some ''age'') (Some ''='') (Some (PInt 18)) None None) =
       Inr (EqualsFilter ''age'' (PInt 18))
     \<and> BaseFilterRule_expression ?ds (EqualsFilter ''age'' (PInt 18)) =
       Inr (EQ (Column ''age'' ''t'') (Literal (PInt 18) False))"
    by (simp add: column_expr_def to_literal_def literal_def Literal_number_def Literal_string_def
        get_value_def)
  note tb = operator_coverage [where operator = "''==''" and ds = "?ds" and field = "''age''"
        and val = "PInt 18" and vs = "[]" and v = "Some (PInt 18)" and ws = "[]"
        and c = None and rs = None and x = "PInt 18" and xs = "[]"]
  have hb: "upper ''=='' \<in> {''='', ''==''}"
    by (simp add: upper_def upper_char_def)
  from tb have pb: "upper ''=='' \<in> {''='', ''==''} \<longrightarrow>
     FilterNode_expression ?ds (SimpleRule ''age'' ''=='' (PInt 18)) =
       Inr (EQ (column_expr ?ds ''age'') (to_literal (PInt 18)))"
    by (elim conjE)
  from tb have qb: "upper ''=='' \<in> {''='', ''==''} \<longrightarrow>
     FilterParser_parse (JsonNode (Some ''age'') (Some ''=='') (Some (PInt 18)) None None) =
       Inr (EqualsFilter ''age'' (get_value (Some (PInt 18))))"
    by (elim conjE)
  from tb have rb: "BaseFilterRule_expression ?ds (EqualsFilter ''age'' (PInt 18)) =
       Inr (EQ (column_expr ?ds ''age'') (literal (PInt 18)))"
    by (elim conjE)
  from hb pb qb rb
  have wb: "FilterNode_expression ?ds (SimpleRule ''age'' ''=='' (PInt 18)) =
       Inr (EQ (Column ''age'' ''t'') (Literal (PInt 18) False))
     \<and> FilterParser_parse (JsonNode (Some ''age'') (Some ''=='') (Some (PInt 18)) None None) =
       Inr (EqualsFilter ''age'' (PInt 18))
     \<and> BaseFilterRule_expression ?ds (EqualsFilter ''age'' (PInt 18)) =
       Inr (EQ (Column ''age'' ''t'') (Literal (PInt 18) False))"
    by (simp add: column_expr_def to_literal_def literal_def Literal_number_def Literal_string_def
        get_value_def)
  note tc = operator_coverage [where operator = "''!=''" and ds = "?ds" and field = "''age''"
        and val = "PInt 18" and vs = "[]" and v = "Some (PInt 18)" and ws = "[]"
        and c = None and rs = None and x = "PInt 18" and xs = "[]"]
  have hc: "upper ''!='' \<in> {''!='', ''<>''}"
    by (simp add: upper_def upper_char_def)
  from tc have pc: "upper ''!='' \<in> {''!='', ''<>''} \<longrightarrow>
     FilterNode_expression ?ds (SimpleRule ''age'' ''!='' (PInt 18)) =
       Inr (NEQ (column_expr ?ds ''age'') (to_literal (PInt 18)))"
    by (elim conjE)
  from tc have qc: "upper ''!='' \<in> {''!='', ''<>''} \<longrightarrow>
     FilterParser_parse (JsonNode (Some ''age'') (Some ''!='') (Some (PInt 18)) None None) =
       Inr (NotEqualsFilter ''age'' (get_value (Some (PInt 18))))"
    by (elim conjE)
  from tc have rc: "BaseFilterRule_expression ?ds (NotEqualsFilter ''age'' (PInt 18)) =
       Inr (NEQ (column_expr ?ds ''age'') (literal (PInt 18)))"
    by (elim conjE)
  from hc pc qc rc
  have wc: "FilterNode_expression ?ds (SimpleRule ''age'' ''!='' (PInt 18)) =
       Inr (NEQ (Column ''age'' ''t'') (Literal (PInt 18) False))
     \<and> FilterParser_parse (JsonNode (Some ''age'') (Some ''!='') (Some (PInt 18)) None None) =
       Inr (NotEqualsFilter ''age'' (PInt 18))
     \<and> BaseFilterRule_expression ?ds (NotEqualsFilter ''age'' (PInt 18)) =
       Inr (NEQ (Column ''age'' ''t'') (Literal (PInt 18) False))"
    by (simp add: column_expr_def to_literal_def literal_def Literal_number_def Literal_string_def
        get_value_def)
  note td = operator_coverage [where operator = "''<>''" and ds = "?ds" and field = "''age''"
        and val = "PInt 18" and vs = "[]" and v = "Some (PInt 18)" and ws = "[]"
        and c = None and rs = None and x = "PInt 18" and xs = "[]"]
  have hd: "upper ''<>'' \<in> {''!='', ''<>''}"
    by (simp add: upper_def upper_char_def)
  from td have pd: "upper ''<>'' \<in> {''!='', ''<>''} \<longrightarrow>
     FilterNode_expression ?ds (SimpleRule ''age'' ''<>'' (PInt 18)) =
       Inr (NEQ (column_expr ?ds ''age'') (to_literal (PInt 18)))"
    by (elim conjE)
  from td have qd: "upper ''<>'' \<in> {''!='', ''<>''} \<longrightarrow>
     FilterParser_parse (JsonNode (Some ''age'') (Some ''<>'') (Some (PInt 18)) None None) =
       Inr (NotEqualsFilter ''age'' (get_value (Some (PInt 18))))"
    by (elim conjE)
  from td have rd: "BaseFilterRule_expression ?ds (NotEqualsFilter ''age'' (PInt 18)) =
       Inr (NEQ (column_expr ?ds ''age'') (literal (PInt 18)))"
    by (elim conjE)
  from hd pd qd rd
  have wd: "FilterNode_expression ?ds (SimpleRule ''age'' ''<>'' (PInt 18)) =
       Inr (NEQ (Column ''age'' ''t'') (Literal (PInt 18) False))
     \<and> FilterParser_parse (JsonNode (Some ''age'') (Some ''<>'') (Some (PInt 18)) None None) =
       Inr (NotEqualsFilter ''age'' (PInt 18))
     \<and> BaseFilterRule_expression ?ds (NotEqualsFilter ''age'' (PInt 18)) =
       Inr (NEQ (Column ''age'' ''t'') (Literal (PInt 18) False))"
    by (simp add: column_expr_def to_literal_def literal_def Literal_number_def Literal_string_def
        get_value_def)
  note te = operator_coverage [where operator = "''>''" and ds = "?ds" and field = "''age''"
        and val = "PInt 18" and vs = "[]" and v = "Some (PInt 18)" and ws = "[]"
        and c = None and rs = None and x = "PInt 18" and xs = "[]"]
  have he: "upper ''>'' = ''>''"
    by (simp add: upper_def upper_char_def)
  from te have pe: "upper ''>'' = ''>'' \<longrightarrow>
     FilterNode_expression ?ds (SimpleRule ''age'' ''>'' (PInt 18)) =
       Inr (GT (column_expr ?ds ''age'') (to_literal (PInt 18)))"
    by (elim conjE)
  from te have qe: "upper ''>'' = ''>'' \<longrightarrow>
     FilterParser_parse (JsonNode (Some ''age'') (Some ''>'') (Some (PInt 18)) None None) =
       Inr (GreaterThanFilter ''age'' (get_value (Some (PInt 18))))"
    by (elim conjE)
  from te have re: "BaseFilterRule_expression ?ds (GreaterThanFilter ''age'' (PInt 18)) =
       Inr (GT (column_expr ?ds ''age'') (literal (PInt 18)))"
    by (elim conjE)
  from he pe qe re
  have we: "FilterNode_expression ?ds (SimpleRule ''age'' ''>'' (PInt 18)) =
       Inr (GT (Column ''age'' ''t'') (Literal (PInt 18) False))
     \<and> FilterParser_parse (JsonNode (Some ''age'') (Some ''>'') (Some (PInt 18)) None None) =
       Inr (GreaterThanFilter ''age'' (PInt 18))
     \<and> BaseFilterRule_expression ?ds (GreaterThanFilter ''age'' (PInt 18)) =
       Inr (GT (Column ''age'' ''t'') (Literal (PInt 18) False))"
    by (simp add: column_expr_def to_literal_def literal_def Literal_number_def Literal_string_def
        get_value_def)
  note tf = operator_coverage [where operator = "''<''" and ds = "?ds" and field = "''age''"
        and val = "PInt 18" and vs = "[]" and v = "Some (PInt 18)" and ws = "[]"
        and c = None and rs = None and x = "PInt 18" and xs = "[]"]
  have hf: "upper ''<'' = ''<''"
    by (simp add: upper_def upper_char_def)
  from tf have pf: "upper ''<'' = ''<'' \<longrightarrow>
     FilterNode_expression ?ds (SimpleRule ''age'' ''<'' (PInt 18)) =
       Inr (LT (column_expr ?ds ''age'') (to_literal (PInt 18)))"
    by (elim conjE)
  from tf have qf: "upper ''<'' = ''<'' \<longrightarrow>
     FilterParser_parse (JsonNode (Some ''age'') (Some ''<'') (Some (PInt 18)) None None) =
       Inr (LessThanFilter ''age'' (get_value (Some (PInt 18))))"
    by (elim conjE)
  from tf have rf: "BaseFilterRule_expression ?ds (LessThanFilter ''age'' (PInt 18)) =
       Inr (LT (column_expr ?ds ''age'') (literal (PInt 18)))"
    by (elim conjE)
  from hf pf qf rf
  have wf: "FilterNode_expression ?ds (SimpleRule ''age'' ''<'' (PInt 18)) =
       Inr (LT (Column ''age'' ''t'') (Literal (PInt 18) False))
     \<and> FilterParser_parse (JsonNode (Some ''age'') (Some ''<'') (Some (PInt 18)) None None) =
       Inr (LessThanFilter ''age'' (PInt 18))
     \<and> BaseFilterRule_expression ?ds (LessThanFilter ''age'' (PInt 18)) =
       Inr (LT (Column ''age'' ''t'') (Literal (PInt 18) False))"
    by (simp add: column_expr_def to_literal_def literal_def Literal_number_def Literal_string_def
        get_value_def)
  note tg = operator_coverage [where operator = "''>=''" and ds = "?ds" and field = "''age''"
        and val = "PInt 18" and vs = "[]" and v = "Some (PInt 18)" and ws = "[]"
        and c = None and rs = None and x = "PInt 18" and xs = "[]"]
  have hg: "upper ''>='' = ''>=''"
    by (simp add: upper_def upper_char_def)
  from tg have pg: "upper ''>='' = ''>='' \<longrightarrow>
     FilterNode_expression ?ds (SimpleRule ''age'' ''>='' (PInt 18)) =
       Inr (GTE (column_expr ?ds ''age'') (to_literal (PInt 18)))"
    by (elim conjE)
  from tg have qg: "upper ''>='' = ''>='' \<longrightarrow>
     FilterParser_parse (JsonNode (Some ''age'') (Some ''>='') (Some (PInt 18)) None None) =
       Inr (GreaterOrEqualFilter ''age'' (get_value (Some (PInt 18))))"
    by (elim conjE)
  from tg have rg: "BaseFilterRule_expression ?ds (GreaterOrEqualFilter ''age'' (PInt 18)) =
       Inr (GTE (column_expr ?ds ''age'') (literal (PInt 18)))"
    by (elim conjE)
  from hg pg qg rg
  have wg: "FilterNode_expression ?ds (SimpleRule ''age'' ''>='' (PInt 18)) =
       Inr (GTE (Column ''age'' ''t'') (Literal (PInt 18) False))
     \<and> FilterParser_parse (JsonNode (Some ''age'') (Some ''>='') (Some (PInt 18)) None None) =
       Inr (GreaterOrEqualFilter ''age'' (PInt 18))
     \<and> BaseFilterRule_expression ?ds (GreaterOrEqualFilter ''age'' (PInt 18)) =
       Inr (GTE (Column ''age'' ''t'') (Literal (PInt 18) False))"
    by (simp add: column_expr_def to_literal_def literal_def Literal_number_def Literal_string_def
        get_value_def)
  note th = operator_coverage [where operator = "''<=''" and ds = "?ds" and field = "''age''"
        and val = "PInt 18" and vs = "[]" and v = "Some (PInt 18)" and ws = "[]"
        and c = None and rs = None and x = "PInt 18" and xs = "[]"]
  have hh: "upper ''<='' = ''<=''"
    by (simp add: upper_def upper_char_def)
  from th have ph: "upper ''<='' = ''<='' \<longrightarrow>
     FilterNode_expression ?ds (SimpleRule ''age'' ''<='' (PInt 18)) =
       Inr (LTE (column_expr ?ds ''age'') (to_literal (PInt 18)))"
    by (elim conjE)
  from th have qh: "upper ''<='' = ''<='' \<longrightarrow>
     FilterParser_parse (JsonNode (Some ''age'') (Some ''<='') (Some (PInt 18)) None None) =
       Inr (LessOrEqualFilter ''age'' (get_value (Some (PInt 18))))"
    by (elim conjE)
  from th have rh: "BaseFilterRule_expression ?ds (LessOrEqualFilter ''age'' (PInt 18)) =
       Inr (LTE (column_expr ?ds ''age'') (literal (PInt 18)))"
    by (elim conjE)
  from hh ph qh rh
  have wh: "FilterNode_expression ?ds (SimpleRule ''age'' ''<='' (PInt 18)) =
       Inr (LTE (Column ''age'' ''t'') (Literal (PInt 18) False))
     \<and> FilterParser_parse (JsonNode (Some ''age'') (Some ''<='') (Some (PInt 18)) None None) =
       Inr (LessOrEqualFilter ''age'' (PInt 18))
     \<and> BaseFilterRule_expression ?ds (LessOrEqualFilter ''age'' (PInt 18)) =
       Inr (LTE (Column ''age'' ''t'') (Literal (PInt 18) False))"
    by (simp add: column_expr_def to_literal_def literal_def Literal_number_def Literal_string_def
        get_value_def)
  note ti = operator_coverage [where operator = "''like''" and ds = "?ds" and field = "''age''"
        and val = "PInt 18" and vs = "[]" and v = "Some (PInt 18)" and ws = "[]"
        and c = None and rs = None and x = "PInt 18" and xs = "[]"]
  have hi: "upper ''like'' = ''LIKE''"
    by (simp add: upper_def upper_char_def)
  from ti have pi: "upper ''like'' = ''LIKE'' \<longrightarrow>
     FilterNode_expression ?ds (SimpleRule ''age'' ''like'' (PInt 18)) =
       Inr (Like (column_expr ?ds ''age'') (to_literal (PInt 18)))"
    by (elim conjE)
  from ti have qi: "upper ''like'' = ''LIKE'' \<longrightarrow>
     FilterParser_parse (JsonNode (Some ''age'') (Some ''like'') (Some (PInt 18)) None None) =
       Inr (LikeFilter ''age'' (get_value (Some (PInt 18))))"
    by (elim conjE)
  from ti have ri: "BaseFilterRule_expression ?ds (LikeFilter ''age'' (PInt 18)) =
       Inr (Like (column_expr ?ds ''age'') (literal (PInt 18)))"
    by (elim conjE)
  from hi pi qi ri
  have wi: "FilterNode_expression ?ds (SimpleRule ''age'' ''like'' (PInt 18)) =
       Inr (Like (Column ''age'' ''t'') (Literal (PInt 18) False))
     \<and> FilterParser_parse (JsonNode (Some ''age'') (Some ''like'') (Some (PInt 18)) None None) =
       Inr (LikeFilter ''age'' (PInt 18))
     \<and> BaseFilterRule_expression ?ds (LikeFilter ''age'' (PInt 18)) =
       Inr (Like (Column ''age'' ''t'') (Literal (PInt 18) False))"
    by (simp add: column_expr_def to_literal_def literal_def Literal_number_def Literal_string_def
        get_value_def)
  note tj = operator_coverage [where operator = "''in''" and ds = "?ds" and field = "''age''"
        and val = "PList [PStr ''a'', PInt 2]" and vs = "[PStr ''a'', PInt 2]" and v = "Some (PList [PStr ''a'', PInt 2])" and ws = "[PStr ''a'', PInt 2]"
        and c = None and rs = None and x = "PList [PStr ''a'', PInt 2]" and xs = "[PStr ''a'', PInt 2]"]
  have hj: "upper ''in'' = ''IN'' \<and> py_iter (PList [PStr ''a'', PInt 2]) = Inr [PStr ''a'', PInt 2] \<and> \<not> is_str_or_bytes (PList [PStr ''a'', PInt 2])"
    by (simp add: upper_def upper_char_def)
  have gj: "upper ''in'' = ''IN'' \<and> py_iter (get_value (Some (PList [PStr ''a'', PInt 2]))) = Inr [PStr ''a'', PInt 2]"
    by (simp add: upper_def upper_char_def get_value_def)
  from tj have pj: "upper ''in'' = ''IN'' \<and> py_iter (PList [PStr ''a'', PInt 2]) = Inr [PStr ''a'', PInt 2] \<and> \<not> is_str_or_bytes (PList [PStr ''a'', PInt 2]) \<longrightarrow>
     FilterNode_expression ?ds (SimpleRule ''age'' ''in'' (PList [PStr ''a'', PInt 2])) =
       Inr (In (column_expr ?ds ''age'') (map to_literal [PStr ''a'', PInt 2]))"
    by (elim conjE)
  from tj have qj: "upper ''in'' = ''IN'' \<and> py_iter (get_value (Some (PList [PStr ''a'', PInt 2]))) = Inr [PStr ''a'', PInt 2] \<longrightarrow>
     FilterParser_parse (JsonNode (Some ''age'') (Some ''in'') (Some (PList [PStr ''a'', PInt 2])) None None) =
       Inr (InFilter ''age'' [PStr ''a'', PInt 2])"
    by (elim conjE)
  from tj have rj: "BaseFilterRule_expression ?ds (InFilter ''age'' [PStr ''a'', PInt 2]) =
       Inr (In (column_expr ?ds ''age'') (map literal [PStr ''a'', PInt 2]))"
    by (elim conjE)
  from pj hj have xj: "FilterNode_expression ?ds (SimpleRule ''age'' ''in'' (PList [PStr ''a'', PInt 2])) =
       Inr (In (column_expr ?ds ''age'') (map to_literal [PStr ''a'', PInt 2]))"
    by (rule mp)
  from qj gj have yj: "FilterParser_parse (JsonNode (Some ''age'') (Some ''in'') (Some (PList [PStr ''a'', PInt 2])) None None) =
       Inr (InFilter ''age'' [PStr ''a'', PInt 2])"
    by (rule mp)
  from xj yj rj
  have wj: "FilterNode_expression ?ds (SimpleRule ''age'' ''in'' (PList [PStr ''a'', PInt 2])) =
       Inr (In (Column ''age'' ''t'') [Literal (PStr ''a'') True, Literal (PInt 2) False])
     \<and> FilterParser_parse (JsonNode (Some ''age'') (Some ''in'') (Some (PList [PStr ''a'', PInt 2])) None None) =
       Inr (InFilter ''age'' [PStr ''a'', PInt 2])
     \<and> BaseFilterRule_expression ?ds (InFilter ''age'' [PStr ''a'', PInt 2]) =
       Inr (In (Column ''age'' ''t'') [Literal (PStr ''a'') True, Literal (PInt 2) False])"
    by (simp add: column_expr_def to_literal_def literal_def Literal_number_def Literal_string_def
        get_value_def)
  note tk = operator_coverage [where operator = "''Between''" and ds = "?ds" and field = "''age''"
        and val = "PInt 18" and vs = "[]" and v = "Some (PInt 18)" and ws = "[]"
        and c = None and rs = None and x = "PInt 18" and xs = "[]"]
  have hk: "upper ''Between'' \<notin> {''='', ''=='', ''!='', ''<>'', ''>'', ''<'', ''>='', ''<='', ''LIKE'', ''IN''}"
    by (simp add: upper_def upper_char_def)
  have uk: "upper ''Between'' = ''BETWEEN''"
    by (simp add: upper_def upper_char_def)
  from tk have pk: "upper ''Between'' \<notin> {''='', ''=='', ''!='', ''<>'', ''>'', ''<'', ''>='', ''<='', ''LIKE'', ''IN''} \<longrightarrow>
     FilterNode_expression ?ds (SimpleRule ''age'' ''Between'' (PInt 18)) =
       Inl (ValueError (''Unsupported operator: '' @ ''Between''))"
    by (elim conjE)
  from tk have qk: "upper ''Between'' \<notin> {''='', ''=='', ''!='', ''<>'', ''>'', ''<'', ''>='', ''<='', ''LIKE'', ''IN''} \<longrightarrow>
     FilterParser_parse (JsonNode (Some ''age'') (Some ''Between'') (Some (PInt 18)) None None) =
       Inl (ValueError (''Unsupported operator: '' @ upper ''Between''))"
    by (elim conjE)
  from pk hk have xk: "FilterNode_expression ?ds (SimpleRule ''age'' ''Between'' (PInt 18)) =
       Inl (ValueError (''Unsupported operator: '' @ ''Between''))"
    by (rule mp)
  from qk hk have yk: "FilterParser_parse (JsonNode (Some ''age'') (Some ''Between'') (Some (PInt 18)) None None) =
       Inl (ValueError (''Unsupported operator: '' @ upper ''Between''))"
    by (rule mp)
  from xk yk
  have wk: "FilterNode_expression ?ds (SimpleRule ''age'' ''Between'' (PInt 18)) =
       Inl (ValueError ''Unsupported operator: Between'')
     \<and> FilterParser_parse (JsonNode (Some ''age'') (Some ''Between'') (Some (PInt 18)) None None) =
       Inl (ValueError ''Unsupported operator: BETWEEN'')"
    by (simp only: uk append.simps simp_thms)
  from wa wb wc wd we wf wg wh wi wj wk show ?thesis
    apply -
    apply (elim conjE)
    apply (intro conjI)
    apply assumption+
    done
qed

section \<open>The validation rules and the combiner\<close>

text \<open>The rules compile to \<open>rs\<close> exactly when each rule compiles, in order, to the entry
  of \<open>rs\<close> at its position.\<close>

lemma rule_conditions_Inr:
  "rule_conditions ds rules = Inr rs \<longleftrightarrow> map (ValidationRule_expression ds) rules = map Inr rs"
proof (induction rules arbitrary: rs)
  case Nil
  show ?case by auto
next
  case (Cons r rules)
  show ?case
  proof (cases "ValidationRule_expression ds r")
    case (Inl e)
    then show ?thesis by (cases rs) auto
  next
    case (Inr x)
    note x = this
    show ?thesis
    proof (cases "rule_conditions ds rules")
      case (Inl e)
      with Cons.IH have "\<And>rs'. map (ValidationRule_expression ds) rules \<noteq> map Inr rs'" by simp
      with x Inl show ?thesis by (cases rs) auto
    next
      case (Inr xs)
      with Cons.IH [of xs] have m: "map (ValidationRule_expression ds) rules = map Inr xs" by simp
      have inj: "\<And>ys. map Inr xs = (map Inr ys :: (error + expr) list) \<longleftrightarrow> xs = ys"
        by (simp add: inj_map_eq_map)
      from x Inr m inj show ?thesis by (cases rs) auto
    qed
  qed
qed

lemma combined_condition_no_rules:
  "validation_rules qb = [] \<Longrightarrow>
     combined_condition qb = FilterNode_expression (dataset qb) (filter_expr qb)"
  by (cases "FilterNode_expression (dataset qb) (filter_expr qb)")
    (simp_all add: combined_condition_def)

lemma combined_condition_rules:
  assumes f: "FilterNode_expression (dataset qb) (filter_expr qb) = Inr f"
    and rs: "map (ValidationRule_expression (dataset qb)) (validation_rules qb) = map Inr rs"
  shows "combined_condition qb =
           Inr (if rs = [] then f else foldl (\<lambda>acc e. And acc (wrap e)) (wrap f) rs)"
proof -
  from rs have r: "rule_conditions (dataset qb) (validation_rules qb) = Inr rs"
    by (simp only: rule_conditions_Inr)
  show ?thesis
  proof (cases rs)
    case Nil
    with f r show ?thesis by (simp add: combined_condition_def)
  next
    case (Cons x xs)
    with f r show ?thesis by (simp add: combined_condition_def exp_and_def combine_many)
  qed
qed

text \<open>
  C3. \<^verbatim>\<open>QueryBuilder.combined_condition\<close>: with no validation rule the result is what the
  filter compiles to, unchanged. When the filter compiles to \<open>f\<close> and the rules compile,
  in their order, to \<open>rs\<close>, the result is, for non-empty \<open>rs\<close>, the conjunction that
  starts with \<open>f\<close> and takes the predicates of \<open>rs\<close> from left to right, a conjunct that
  is itself a connective standing in parentheses.
\<close>

theorem combined_condition_order:
  "(validation_rules qb = [] \<longrightarrow>
      combined_condition qb = FilterNode_expression (dataset qb) (filter_expr qb))
 \<and> (FilterNode_expression (dataset qb) (filter_expr qb) = Inr f
      \<and> map (ValidationRule_expression (dataset qb)) (validation_rules qb) = map Inr rs \<longrightarrow>
      combined_condition qb =
        Inr (if rs = [] then f else foldl (\<lambda>acc e. And acc (wrap e)) (wrap f) rs))"
  using combined_condition_no_rules [of qb] combined_condition_rules [of qb f rs]
  by blast

theorem combined_condition_order_witness:
  "combined_condition
     \<lparr>dataset = \<lparr>table_name = ''t'', dialect = ''duckdb''\<rparr>, filter_expr = SimpleRule ''field1'' ''='' (PStr ''v1''),
      validation_rules = []\<rparr>
     = Inr (EQ (Column ''field1'' ''t'') (Literal (PStr ''v1'') True))
   \<and> combined_condition
     \<lparr>dataset = \<lparr>table_name = ''t'', dialect = ''duckdb''\<rparr>, filter_expr = SimpleRule ''field1'' ''='' (PStr ''v1''),
      validation_rules = [NotNullRule ''field1'']\<rparr>
     = Inr (And (EQ (Column ''field1'' ''t'') (Literal (PStr ''v1'') True))
                (IsNot (Column ''field1'' ''t'') Null))
   \<and> combined_condition
     \<lparr>dataset = \<lparr>table_name = ''t'', dialect = ''duckdb''\<rparr>,
      filter_expr = GroupRule ''OR'' [SimpleRule ''a'' ''<'' (PInt 1), SimpleRule ''b'' ''>'' (PInt 2)],
      validation_rules = [RangeRule ''a'' (Some 0) (Some 9), NotNullRule ''b'']\<rparr>
     = Inr (And (And (Paren (Or (LT (Column ''a'' ''t'') (Literal (PInt 1) False))
                                (GT (Column ''b'' ''t'') (Literal (PInt 2) False))))
                     (Paren (And (GTE (Column ''a'' ''t'') (Literal (PFloat 0) False))
                                 (LTE (Column ''a'' ''t'') (Literal (PFloat 9) False)))))
                (IsNot (Column ''b'' ''t'') Null))"
proof -
  let ?ds = "\<lparr>table_name = ''t'', dialect = ''duckdb''\<rparr>"
  let ?eq = "EQ (Column ''field1'' ''t'') (Literal (PStr ''v1'') True)"
  let ?or = "Or (LT (Column ''a'' ''t'') (Literal (PInt 1) False))
                (GT (Column ''b'' ''t'') (Literal (PInt 2) False))"
  let ?range = "And (GTE (Column ''a'' ''t'') (Literal (PFloat 0) False))
                    (LTE (Column ''a'' ''t'') (Literal (PFloat 9) False))"
  have leaf: "FilterNode_expression ?ds (SimpleRule ''field1'' ''='' (PStr ''v1'')) = Inr ?eq"
    by (simp add: upper_def upper_char_def column_expr_def to_literal_def Literal_string_def)
  have grp: "FilterNode_expression ?ds
               (GroupRule ''OR'' [SimpleRule ''a'' ''<'' (PInt 1), SimpleRule ''b'' ''>'' (PInt 2)])
             = Inr ?or"
    by (simp add: upper_def upper_char_def column_expr_def to_literal_def Literal_number_def
        exp_or_def combine_def)
  have r1: "map (ValidationRule_expression ?ds) [NotNullRule ''field1'']
            = map Inr [IsNot (Column ''field1'' ''t'') Null]"
    by (simp add: column_expr_def)
  have r2: "map (ValidationRule_expression ?ds) [RangeRule ''a'' (Some 0) (Some 9), NotNullRule ''b'']
            = map Inr [?range, IsNot (Column ''b'' ''t'') Null]"
    by (simp add: Let_def column_expr_def Literal_number_def exp_and_def combine_def)
  from combined_condition_order
      [where qb = "\<lparr>dataset = ?ds, filter_expr = SimpleRule ''field1'' ''='' (PStr ''v1''),
                    validation_rules = []\<rparr>" and f = ?eq and rs = "[]"]
    leaf
  have a: "combined_condition
     \<lparr>dataset = ?ds, filter_expr = SimpleRule ''field1'' ''='' (PStr ''v1''),
      validation_rules = []\<rparr> = Inr ?eq"
    by simp
  from combined_condition_order
      [where qb = "\<lparr>dataset = ?ds, filter_expr = SimpleRule ''field1'' ''='' (PStr ''v1''),
                    validation_rules = [NotNullRule ''field1'']\<rparr>" and f = ?eq
        and rs = "[IsNot (Column ''field1'' ''t'') Null]"]
    leaf r1
  have b: "combined_condition
     \<lparr>dataset = ?ds, filter_expr = SimpleRule ''field1'' ''='' (PStr ''v1''),
      validation_rules = [NotNullRule ''field1'']\<rparr>
     = Inr (And ?eq (IsNot (Column ''field1'' ''t'') Null))"
    by simp
  from combined_condition_order
      [where qb = "\<lparr>dataset = ?ds,
          filter_expr = GroupRule ''OR'' [SimpleRule ''a'' ''<'' (PInt 1), SimpleRule ''b'' ''>'' (PInt 2)],
          validation_rules = [RangeRule ''a'' (Some 0) (Some 9), NotNullRule ''b'']\<rparr>"
        and f = ?or and rs = "[?range, IsNot (Column ''b'' ''t'') Null]"]
    grp r2
  have c: "combined_condition
     \<lparr>dataset = ?ds,
      filter_expr = GroupRule ''OR'' [SimpleRule ''a'' ''<'' (PInt 1), SimpleRule ''b'' ''>'' (PInt 2)],
      validation_rules = [RangeRule ''a'' (Some 0) (Some 9), NotNullRule ''b'']\<rparr>
     = Inr (And (And (Paren ?or) (Paren ?range)) (IsNot (Column ''b'' ''t'') Null))"
    by simp
  from a b c show ?thesis by blast
qed

text \<open>
  C8. For a non-empty list of columns, \<^verbatim>\<open>UniqueValuesRule.expression\<close> is the predicate
  \<^verbatim>\<open>COUNT(*) = COUNT(DISTINCT key)\<close>, where \<open>key\<close> is the qualified column when there is one
  column and otherwise the tuple of all the qualified columns in the given order.
\<close>

theorem unique_values_predicate:
  "columns \<noteq> [] \<Longrightarrow>
     ValidationRule_expression ds (UniqueValuesRule columns) =
       Inr (EQ (Count Star False)
              (Count (case columns of
                        [c] \<Rightarrow> column_expr ds c
                      | _ \<Rightarrow> Tuple (map (column_expr ds) columns)) True))"
  by (cases columns) (auto simp add: Let_def split: list.splits)

theorem unique_values_predicate_witness:
  "ValidationRule_expression \<lparr>table_name = ''t'', dialect = ''duckdb''\<rparr> (UniqueValuesRule [''x'', ''y''])
     = Inr (EQ (Count Star False) (Count (Tuple [Column ''x'' ''t'', Column ''y'' ''t'']) True))
   \<and> ValidationRule_expression \<lparr>table_name = ''t'', dialect = ''duckdb''\<rparr> (UniqueValuesRule [''x''])
     = Inr (EQ (Count Star False) (Count (Column ''x'' ''t'') True))"
proof -
  have two: "[''x'', ''y''] \<noteq> []" and one: "[''x''] \<noteq> []"
    by simp_all
  from unique_values_predicate [OF two, of "\<lparr>table_name = ''t'', dialect = ''duckdb''\<rparr>"]
    unique_values_predicate [OF one, of "\<lparr>table_name = ''t'', dialect = ''duckdb''\<rparr>"]
  show ?thesis by (simp add: column_expr_def)
qed

text \<open>
  C9. A range with no bound is rejected by the constructor \<^verbatim>\<open>RangeRule.__init__\<close> with a
  \<^verbatim>\<open>ValueError\<close>; a range with a bound is constructed. With both bounds the rule compiles
  to the conjunction of \<^verbatim>\<open>column >= minimum\<close> and \<^verbatim>\<open>column <= maximum\<close>; with one bound it
  compiles to that bound's comparison alone, with no conjunction around it.
\<close>

theorem range_rule_predicate:
  "RangeRule_init column None None =
      Inl (ValueError ''At least one of minimum or maximum must be provided'')
 \<and> RangeRule_init column (Some lo) (Some hi) = Inr (RangeRule column (Some lo) (Some hi))
 \<and> ValidationRule_expression ds (RangeRule column (Some lo) (Some hi)) =
      Inr (And (GTE (column_expr ds column) (Literal_number (PFloat lo)))
               (LTE (column_expr ds column) (Literal_number (PFloat hi))))
 \<and> RangeRule_init column (Some lo) None = Inr (RangeRule column (Some lo) None)
 \<and> ValidationRule_expression ds (RangeRule column (Some lo) None) =
      Inr (GTE (column_expr ds column) (Literal_number (PFloat lo)))
 \<and> RangeRule_init column None (Some hi) = Inr (RangeRule column None (Some hi))
 \<and> ValidationRule_expression ds (RangeRule column None (Some hi)) =
      Inr (LTE (column_expr ds column) (Literal_number (PFloat hi)))"
  by (simp add: RangeRule_init_def Let_def exp_and_def combine_def)

theorem range_rule_predicate_witness:
  "RangeRule_init ''score'' None None =
      Inl (ValueError ''At least one of minimum or maximum must be provided'')
 \<and> RangeRule_init ''score'' (Some 0) None = Inr (RangeRule ''score'' (Some 0) None)
 \<and> ValidationRule_expression \<lparr>table_name = ''t'', dialect = ''duckdb''\<rparr> (RangeRule ''score'' (Some 0) None) =
      Inr (GTE (Column ''score'' ''t'') (Literal (PFloat 0) False))
 \<and> ValidationRule_expression \<lparr>table_name = ''t'', dialect = ''duckdb''\<rparr> (RangeRule ''score'' (Some 0) (Some 100)) =
      Inr (And (GTE (Column ''score'' ''t'') (Literal (PFloat 0) False))
               (LTE (Column ''score'' ''t'') (Literal (PFloat 100) False)))
 \<and> ValidationRule_expression \<lparr>table_name = ''t'', dialect = ''duckdb''\<rparr> (RangeRule ''score'' None (Some 100)) =
      Inr (LTE (Column ''score'' ''t'') (Literal (PFloat 100) False))"
  using range_rule_predicate [of "''score''" 0 100 "\<lparr>table_name = ''t'', dialect = ''duckdb''\<rparr>"]
  by (simp add: column_expr_def Literal_number_def)

section \<open>The column projection\<close>

lemma collect_preorder:
  "collect node referenced = referenced @ preorder_fields node"
  "collect_children children referenced = referenced @ concat (map preorder_fields children)"
  by (induction node referenced and children referenced rule: collect_collect_children.induct)
    simp_all

lemma collect_rules_columns:
  "collect_rules rules referenced = referenced @ concat (map rule_columns rules)"
  by (induction rules referenced rule: collect_rules.induct) simp_all

lemma unique_cols_positions:
  "unique_cols seen xs =
     map (\<lambda>i. xs ! i) (filter (\<lambda>i. xs ! i \<notin> seen \<union> set (take i xs)) [0..<length xs])"
proof (induction xs arbitrary: seen)
  case Nil
  show ?case by simp
next
  case (Cons c cs)
  have upt: "[0..<length (c # cs)] = 0 # map Suc [0..<length cs]"
    by (simp add: upt_conv_Cons map_Suc_upt del: upt_Suc)
  show ?case
  proof (cases "c \<in> seen")
    case True
    then have p: "(cs ! i \<notin> seen \<and> cs ! i \<noteq> c \<and> cs ! i \<notin> set (take i cs))
                  = (cs ! i \<notin> seen \<and> cs ! i \<notin> set (take i cs))" for i
      by auto
    from True Cons.IH [of seen] show ?thesis
      by (simp only: upt) (simp add: filter_map comp_def p)
  next
    case False
    from False Cons.IH [of "insert c seen"] show ?thesis
      by (simp only: upt) (simp add: filter_map comp_def conj_ac)
  qed
qed

lemma unique_cols_first_occurrences: "unique_cols {} xs = first_occurrences xs"
  by (simp add: unique_cols_positions first_occurrences_def)

lemma set_unique_cols: "set (unique_cols seen xs) = set xs - seen"
  by (induction xs arbitrary: seen) auto

lemma distinct_unique_cols: "distinct (unique_cols seen xs)"
  by (induction xs arbitrary: seen) (auto simp add: set_unique_cols)

lemma distinct_columns:
  "distinct names \<Longrightarrow> distinct (map (column_expr ds) names)"
  by (simp add: distinct_map inj_on_def column_expr_def)

lemma generate_sql_projection:
  "generate_sql qb False =
     (case combined_condition qb of
        Inl e \<Rightarrow> Inl e
      | Inr where_expr \<Rightarrow>
          Inr (Select
                 (map (column_expr (dataset qb))
                    (first_occurrences
                       (preorder_fields (filter_expr qb)
                        @ concat (map rule_columns (validation_rules qb)))))
                 (table_expr (dataset qb)) where_expr,
               dialect (dataset qb)))"
  by (simp add: generate_sql_def Let_def collect_preorder collect_rules_columns
      unique_cols_first_occurrences split: sum.splits)

text \<open>
  C4. With \<^verbatim>\<open>select_all=False\<close>, \<^verbatim>\<open>generate_sql\<close> fails only when the combined condition
  fails, and otherwise selects the qualified columns of the names
  \<open>first_occurrences (preorder_fields filter @ concat (map rule_columns rules))\<close>: the fields
  of the leaves in depth-first pre-order, then the columns of the validation rules in
  their order, each name kept at the position of its first occurrence. That list has no
  duplicates, holds every referenced name, and its qualified columns are distinct too.
\<close>

theorem projected_columns:
  "generate_sql qb False =
     (case combined_condition qb of
        Inl e \<Rightarrow> Inl e
      | Inr where_expr \<Rightarrow>
          Inr (Select
                 (map (column_expr (dataset qb))
                    (first_occurrences
                       (preorder_fields (filter_expr qb)
                        @ concat (map rule_columns (validation_rules qb)))))
                 (table_expr (dataset qb)) where_expr,
               dialect (dataset qb)))
 \<and> distinct (first_occurrences
               (preorder_fields (filter_expr qb)
                @ concat (map rule_columns (validation_rules qb))))
 \<and> set (first_occurrences
          (preorder_fields (filter_expr qb)
           @ concat (map rule_columns (validation_rules qb))))
     = set (preorder_fields (filter_expr qb)
            @ concat (map rule_columns (validation_rules qb)))
 \<and> distinct (map (column_expr (dataset qb))
               (first_occurrences
                  (preorder_fields (filter_expr qb)
                   @ concat (map rule_columns (validation_rules qb)))))"
proof -
  let ?referenced = "preorder_fields (filter_expr qb)
                     @ concat (map rule_columns (validation_rules qb))"
  have d: "distinct (first_occurrences ?referenced)"
    using distinct_unique_cols [of "{}" ?referenced]
    by (simp only: unique_cols_first_occurrences)
  have s: "set (first_occurrences ?referenced) = set ?referenced"
    using set_unique_cols [of "{}" ?referenced]
    by (simp only: unique_cols_first_occurrences Diff_empty)
  from d have c: "distinct (map (column_expr (dataset qb)) (first_occurrences ?referenced))"
    by (rule distinct_columns)
  from generate_sql_projection [of qb] d s c show ?thesis
    by (intro conjI)
qed

theorem projected_columns_witness:
  "generate_sql
     \<lparr>dataset = \<lparr>table_name = ''t'', dialect = ''duckdb''\<rparr>,
      filter_expr =
        GroupRule ''AND''
          [SimpleRule ''b'' ''='' (PInt 1),
           GroupRule ''OR'' [SimpleRule ''a'' ''='' (PInt 1), SimpleRule ''b'' ''<'' (PInt 1)]],
      validation_rules =
        [NotNullRule ''a'', UniqueValuesRule [''c'', ''b'', ''d''], RangeRule ''e'' (Some 0) None]\<rparr>
     False
   = Inr (Select
            [Column ''b'' ''t'', Column ''a'' ''t'', Column ''c'' ''t'', Column ''d'' ''t'',
             Column ''e'' ''t'']
            (Table ''t'')
            (And (And (And (Paren
                        (And (EQ (Column ''b'' ''t'') (Literal (PInt 1) False))
                          (Paren
                            (Or (EQ (Column ''a'' ''t'') (Literal (PInt 1) False))
                              (LT (Column ''b'' ''t'') (Literal (PInt 1) False))))))
                   (IsNot (Column ''a'' ''t'') Null))
              (EQ (Count Star False)
                 (Count (Tuple [Column ''c'' ''t'', Column ''b'' ''t'', Column ''d'' ''t'']) True)))
              (GTE (Column ''e'' ''t'') (Literal (PFloat 0) False))),
          ''duckdb'')
   \<and> first_occurrences [''b'', ''a'', ''b'', ''a'', ''c'', ''b'', ''d'', ''e'']
     = [''b'', ''a'', ''c'', ''d'', ''e'']"
proof -
  let ?qb = "\<lparr>dataset = \<lparr>table_name = ''t'', dialect = ''duckdb''\<rparr>,
      filter_expr =
        GroupRule ''AND''
          [SimpleRule ''b'' ''='' (PInt 1),
           GroupRule ''OR'' [SimpleRule ''a'' ''='' (PInt 1), SimpleRule ''b'' ''<'' (PInt 1)]],
      validation_rules =
        [NotNullRule ''a'', UniqueValuesRule [''c'', ''b'', ''d''], RangeRule ''e'' (Some 0) None]\<rparr>"
  have f: "first_occurrences [''b'', ''a'', ''b'', ''a'', ''c'', ''b'', ''d'', ''e'']
             = [''b'', ''a'', ''c'', ''d'', ''e'']"
    by (simp add: unique_cols_first_occurrences [symmetric])
  have w: "combined_condition ?qb =
      Inr (And (And (And (Paren
                        (And (EQ (Column ''b'' ''t'') (Literal (PInt 1) False))
                          (Paren
                            (Or (EQ (Column ''a'' ''t'') (Literal (PInt 1) False))
                              (LT (Column ''b'' ''t'') (Literal (PInt 1) False))))))
                   (IsNot (Column ''a'' ''t'') Null))
              (EQ (Count Star False)
                 (Count (Tuple [Column ''c'' ''t'', Column ''b'' ''t'', Column ''d'' ''t'']) True)))
              (GTE (Column ''e'' ''t'') (Literal (PFloat 0) False)))"
    by (simp add: combined_condition_def upper_def upper_char_def column_expr_def to_literal_def
        Literal_number_def exp_and_def exp_or_def combine_def Let_def)
  from projected_columns [of ?qb] w f show ?thesis
    by (simp add: column_expr_def table_expr_def)
qed

section \<open>Literal coercion, membership values and missing values\<close>

lemma is_str_iff: "is_str v \<longleftrightarrow> (\<exists>s. v = PStr s)"
  by (cases v) simp_all

lemma is_Iterable_py_iter: "is_Iterable v \<Longrightarrow> \<exists>vs. py_iter v = Inr vs"
  by (cases v) simp_all

lemma comparison_cases:
  assumes "upper operator \<in> {''='', ''=='', ''!='', ''<>'', ''>'', ''<'', ''>='', ''<='', ''LIKE''}"
  shows "\<exists>K \<in> {EQ, NEQ, GT, LT, GTE, LTE, Like}.
           FilterNode_expression ds (SimpleRule field operator val) =
             Inr (K (column_expr ds field) (to_literal val))"
proof -
  note f = SimpleRule_comparisons [of operator ds field val]
  from assms consider (eq) "upper operator \<in> {''='', ''==''}" | (neq) "upper operator \<in> {''!='', ''<>''}" | (gt) "upper operator = ''>''" | (lt) "upper operator = ''<''" | (gte) "upper operator = ''>=''" | (lte) "upper operator = ''<=''" | (like) "upper operator = ''LIKE''"
    by blast
  then show ?thesis
  proof cases
    case eq
    with f have "FilterNode_expression ds (SimpleRule field operator val) =
        Inr (EQ (column_expr ds field) (to_literal val))"
      by (elim conjE) (rule mp)
    then show ?thesis
      by (intro bexI [of _ EQ]) simp_all
  next
    case neq
    with f have "FilterNode_expression ds (SimpleRule field operator val) =
        Inr (NEQ (column_expr ds field) (to_literal val))"
      by (elim conjE) (rule mp)
    then show ?thesis
      by (intro bexI [of _ NEQ]) simp_all
  next
    case gt
    with f have "FilterNode_expression ds (SimpleRule field operator val) =
        Inr (GT (column_expr ds field) (to_literal val))"
      by (elim conjE) (rule mp)
    then show ?thesis
      by (intro bexI [of _ GT]) simp_all
  next
    case lt
    with f have "FilterNode_expression ds (SimpleRule field operator val) =
        Inr (LT (column_expr ds field) (to_literal val))"
      by (elim conjE) (rule mp)
    then show ?thesis
      by (intro bexI [of _ LT]) simp_all
  next
    case gte
    with f have "FilterNode_expression ds (SimpleRule field operator val) =
        Inr (GTE (column_expr ds field) (to_literal val))"
      by (elim conjE) (rule mp)
    then show ?thesis
      by (intro bexI [of _ GTE]) simp_all
  next
    case lte
    with f have "FilterNode_expression ds (SimpleRule field operator val) =
        Inr (LTE (column_expr ds field) (to_literal val))"
      by (elim conjE) (rule mp)
    then show ?thesis
      by (intro bexI [of _ LTE]) simp_all
  next
    case like
    with f have "FilterNode_expression ds (SimpleRule field operator val) =
        Inr (Like (column_expr ds field) (to_literal val))"
      by (elim conjE) (rule mp)
    then show ?thesis
      by (intro bexI [of _ Like]) simp_all
  qed
qed

lemma parser_comparison_cases:
  assumes "upper operator \<in> {''='', ''=='', ''!='', ''<>'', ''>'', ''<'', ''>='', ''<='', ''LIKE''}"
  shows "\<exists>R K. (R, K) \<in> {(EqualsFilter, EQ), (NotEqualsFilter, NEQ), (GreaterThanFilter, GT),
                     (LessThanFilter, LT), (GreaterOrEqualFilter, GTE), (LessOrEqualFilter, LTE),
                     (LikeFilter, Like)}
           \<and> FilterParser_parse (JsonNode (Some field) (Some operator) v c rs) =
               Inr (R field (get_value v))
           \<and> BaseFilterRule_expression ds (R field (get_value v)) =
               Inr (K (column_expr ds field) (literal (get_value v)))"
proof -
  note f = FilterParser_comparisons [of operator field v c rs]
  note g = comparison_filter_expressions(1-7) [of ds field "get_value v"]
  from assms consider (eq) "upper operator \<in> {''='', ''==''}" | (neq) "upper operator \<in> {''!='', ''<>''}" | (gt) "upper operator = ''>''" | (lt) "upper operator = ''<''" | (gte) "upper operator = ''>=''" | (lte) "upper operator = ''<=''" | (like) "upper operator = ''LIKE''"
    by blast
  then show ?thesis
  proof cases
    case eq
    with f have "FilterParser_parse (JsonNode (Some field) (Some operator) v c rs) =
        Inr (EqualsFilter field (get_value v))"
      by (elim conjE) (rule mp)
    with g show ?thesis
      by (intro exI [of _ EqualsFilter] exI [of _ EQ]) simp
  next
    case neq
    with f have "FilterParser_parse (JsonNode (Some field) (Some operator) v c rs) =
        Inr (NotEqualsFilter field (get_value v))"
      by (elim conjE) (rule mp)
    with g show ?thesis
      by (intro exI [of _ NotEqualsFilter] exI [of _ NEQ]) simp
  next
    case gt
    with f have "FilterParser_parse (JsonNode (Some field) (Some operator) v c rs) =
        Inr (GreaterThanFilter field (get_value v))"
      by (elim conjE) (rule mp)
    with g show ?thesis
      by (intro exI [of _ GreaterThanFilter] exI [of _ GT]) simp
  next
    case lt
    with f have "FilterParser_parse (JsonNode (Some field) (Some operator) v c rs) =
        Inr (LessThanFilter field (get_value v))"
      by (elim conjE) (rule mp)
    with g show ?thesis
      by (intro exI [of _ LessThanFilter] exI [of _ LT]) simp
  next
    case gte
    with f have "FilterParser_parse (JsonNode (Some field) (Some operator) v c rs) =
        Inr (GreaterOrEqualFilter field (get_value v))"
      by (elim conjE) (rule mp)
    with g show ?thesis
      by (intro exI [of _ GreaterOrEqualFilter] exI [of _ GTE]) simp
  next
    case lte
    with f have "FilterParser_parse (JsonNode (Some field) (Some operator) v c rs) =
        Inr (LessOrEqualFilter field (get_value v))"
      by (elim conjE) (rule mp)
    with g show ?thesis
      by (intro exI [of _ LessOrEqualFilter] exI [of _ LTE]) simp
  next
    case like
    with f have "FilterParser_parse (JsonNode (Some field) (Some operator) v c rs) =
        Inr (LikeFilter field (get_value v))"
      by (elim conjE) (rule mp)
    with g show ?thesis
      by (intro exI [of _ LikeFilter] exI [of _ Like]) simp
  qed
qed

text \<open>
  C5. Literal coercion (\<^verbatim>\<open>SimpleRule._to_literal\<close>, \<^verbatim>\<open>SingleValueMixin._literal\<close> and the
  list version of \<^verbatim>\<open>ListValueMixin\<close>) never fails: a string becomes a string literal and
  every other value, a number, a boolean, \<^verbatim>\<open>None\<close> or a nested object alike, becomes a
  numeric literal. A comparison leaf therefore compiles for every value. No check for
  an unsupported kind of literal exists in the sources.
\<close>

theorem literal_coercion_total:
  "(is_str v \<longleftrightarrow> (\<exists>s. v = PStr s))
 \<and> to_literal v = Literal v (is_str v)
 \<and> literal v = Literal v (is_str v)
 \<and> literal_list vs = map (\<lambda>x. Literal x (is_str x)) vs
 \<and> FilterNode_expression ds (SimpleRule field ''='' v) =
      Inr (EQ (column_expr ds field) (Literal v (is_str v)))
 \<and> BaseFilterRule_expression ds (EqualsFilter field v) =
      Inr (EQ (column_expr ds field) (Literal v (is_str v)))"
  by (simp add: is_str_iff [symmetric] to_literal_def literal_def literal_list_def
      Literal_string_def Literal_number_def upper_def upper_char_def Let_def)

theorem literal_coercion_total_witness:
  "to_literal (PBool True) = Literal (PBool True) False
 \<and> to_literal PNone = Literal PNone False
 \<and> to_literal (PDict [(''a'', PInt 1)]) = Literal (PDict [(''a'', PInt 1)]) False
 \<and> to_literal (PStr ''v1'') = Literal (PStr ''v1'') True
 \<and> literal (PInt 18) = Literal (PInt 18) False"
  using literal_coercion_total [of "PBool True"] literal_coercion_total [of PNone]
    literal_coercion_total [of "PDict [(''a'', PInt 1)]"] literal_coercion_total [of "PStr ''v1''"]
    literal_coercion_total [of "PInt 18"]
  by simp

theorem literal_coercion_counterexample:
  "FilterNode_expression \<lparr>table_name = ''t'', dialect = ''duckdb''\<rparr> (SimpleRule ''f'' ''='' (PDict [(''a'', PInt 1)]))
     = Inr (EQ (Column ''f'' ''t'') (Literal (PDict [(''a'', PInt 1)]) False))
 \<and> FilterNode_expression \<lparr>table_name = ''t'', dialect = ''duckdb''\<rparr> (SimpleRule ''f'' ''='' (PBool True))
     = Inr (EQ (Column ''f'' ''t'') (Literal (PBool True) False))
 \<and> FilterNode_expression \<lparr>table_name = ''t'', dialect = ''duckdb''\<rparr> (SimpleRule ''f'' ''='' PNone)
     = Inr (EQ (Column ''f'' ''t'') (Literal PNone False))
 \<and> BaseFilterRule_expression \<lparr>table_name = ''t'', dialect = ''duckdb''\<rparr> (EqualsFilter ''f'' (PBool True))
     = Inr (EQ (Column ''f'' ''t'') (Literal (PBool True) False))"
  by (simp add: upper_def upper_char_def column_expr_def to_literal_def literal_def
      Literal_number_def)

text \<open>
  C6. For a leaf whose operator is \<^verbatim>\<open>IN\<close>, \<^verbatim>\<open>SimpleRule.expression\<close> fails with a
  \<^verbatim>\<open>ValueError\<close> exactly when the value is not iterable or is a single string or bytes
  object; every other iterable is accepted and each of its members is coerced to a
  literal, without a check that the member is a scalar. \<^verbatim>\<open>FilterParser.parse\<close> fails with a
  \<^verbatim>\<open>ValueError\<close> when the value is not iterable.
\<close>

theorem membership_value_check:
  assumes "upper operator = ''IN''"
  shows "(\<not> is_Iterable val \<or> is_str_or_bytes val \<longrightarrow>
            FilterNode_expression ds (SimpleRule field operator val) =
              Inl (ValueError ''IN operator requires a sequence of values''))
       \<and> (is_Iterable val \<and> \<not> is_str_or_bytes val \<longrightarrow>
            (\<exists>vs. py_iter val = Inr vs
               \<and> FilterNode_expression ds (SimpleRule field operator val) =
                   Inr (In (column_expr ds field) (map to_literal vs))))
       \<and> (\<not> is_Iterable (get_value v) \<longrightarrow>
            FilterParser_parse (JsonNode (Some field) (Some operator) v c rs) =
              Inl (ValueError ''IN operator requires a list of values''))"
proof (intro conjI impI)
  assume "\<not> is_Iterable val \<or> is_str_or_bytes val"
  with assms show "FilterNode_expression ds (SimpleRule field operator val) =
      Inl (ValueError ''IN operator requires a sequence of values'')"
    by (simp add: Let_def)
next
  assume a: "is_Iterable val \<and> \<not> is_str_or_bytes val"
  then obtain vs where vs: "py_iter val = Inr vs"
    using is_Iterable_py_iter by blast
  with assms a have "FilterNode_expression ds (SimpleRule field operator val) =
      Inr (In (column_expr ds field) (map to_literal vs))"
    by (simp add: SimpleRule_membership)
  with vs show "\<exists>vs. py_iter val = Inr vs
      \<and> FilterNode_expression ds (SimpleRule field operator val) =
          Inr (In (column_expr ds field) (map to_literal vs))"
    by blast
next
  assume "\<not> is_Iterable (get_value v)"
  with assms show "FilterParser_parse (JsonNode (Some field) (Some operator) v c rs) =
      Inl (ValueError ''IN operator requires a list of values'')"
    by (simp add: Let_def OPERATOR_MAP_simps)
qed

theorem membership_value_check_witness:
  "FilterNode_expression \<lparr>table_name = ''t'', dialect = ''duckdb''\<rparr> (SimpleRule ''status'' ''in'' (PStr ''ab''))
     = Inl (ValueError ''IN operator requires a sequence of values'')
 \<and> FilterNode_expression \<lparr>table_name = ''t'', dialect = ''duckdb''\<rparr> (SimpleRule ''status'' ''in'' (PBytes ''ab''))
     = Inl (ValueError ''IN operator requires a sequence of values'')
 \<and> FilterNode_expression \<lparr>table_name = ''t'', dialect = ''duckdb''\<rparr> (SimpleRule ''status'' ''in'' (PInt 5))
     = Inl (ValueError ''IN operator requires a sequence of values'')
 \<and> FilterNode_expression \<lparr>table_name = ''t'', dialect = ''duckdb''\<rparr> (SimpleRule ''status'' ''in'' (PList [PStr ''a'', PStr ''b'']))
     = Inr (In (Column ''status'' ''t'') [Literal (PStr ''a'') True, Literal (PStr ''b'') True])
 \<and> FilterParser_parse (JsonNode (Some ''status'') (Some ''in'') (Some (PInt 5)) None None)
     = Inl (ValueError ''IN operator requires a list of values'')"
proof -
  have u: "upper ''in'' = ''IN''"
    by (simp add: upper_def upper_char_def)
  from membership_value_check [OF u, where val = "PStr ''ab''" and ds = "\<lparr>table_name = ''t'', dialect = ''duckdb''\<rparr>"
      and field = "''status''" and v = "Some (PInt 5)" and c = None and rs = None]
  have a: "FilterNode_expression \<lparr>table_name = ''t'', dialect = ''duckdb''\<rparr> (SimpleRule ''status'' ''in'' (PStr ''ab''))
     = Inl (ValueError ''IN operator requires a sequence of values'')
    \<and> FilterParser_parse (JsonNode (Some ''status'') (Some ''in'') (Some (PInt 5)) None None)
     = Inl (ValueError ''IN operator requires a list of values'')"
    by (simp add: get_value_def)
  from membership_value_check [OF u, where val = "PBytes ''ab''" and ds = "\<lparr>table_name = ''t'', dialect = ''duckdb''\<rparr>"
      and field = "''status''" and v = None and c = None and rs = None]
  have b: "FilterNode_expression \<lparr>table_name = ''t'', dialect = ''duckdb''\<rparr> (SimpleRule ''status'' ''in'' (PBytes ''ab''))
     = Inl (ValueError ''IN operator requires a sequence of values'')"
    by simp
  from membership_value_check [OF u, where val = "PInt 5" and ds = "\<lparr>table_name = ''t'', dialect = ''duckdb''\<rparr>"
      and field = "''status''" and v = None and c = None and rs = None]
  have c: "FilterNode_expression \<lparr>table_name = ''t'', dialect = ''duckdb''\<rparr> (SimpleRule ''status'' ''in'' (PInt 5))
     = Inl (ValueError ''IN operator requires a sequence of values'')"
    by simp
  from membership_value_check [OF u, where val = "PList [PStr ''a'', PStr ''b'']" and ds = "\<lparr>table_name = ''t'', dialect = ''duckdb''\<rparr>"
      and field = "''status''" and v = None and c = None and rs = None]
  have d: "FilterNode_expression \<lparr>table_name = ''t'', dialect = ''duckdb''\<rparr> (SimpleRule ''status'' ''in'' (PList [PStr ''a'', PStr ''b'']))
     = Inr (In (Column ''status'' ''t'') [Literal (PStr ''a'') True, Literal (PStr ''b'') True])"
    by (simp add: column_expr_def to_literal_def Literal_string_def)
  from a b c d show ?thesis by blast
qed

theorem membership_scalars_counterexample:
  "FilterNode_expression \<lparr>table_name = ''t'', dialect = ''duckdb''\<rparr>
     (SimpleRule ''status'' ''IN'' (PList [PList [PInt 1, PInt 2], PDict [(''a'', PInt 1)]]))
   = Inr (In (Column ''status'' ''t'')
            [Literal (PList [PInt 1, PInt 2]) False, Literal (PDict [(''a'', PInt 1)]) False])"
  by (simp add: upper_def upper_char_def column_expr_def to_literal_def Literal_number_def)

text \<open>\<^verbatim>\<open>FilterParser.parse\<close> tests only \<^verbatim>\<open>isinstance(value, Iterable)\<close>: a single string passes
  it, and \<^verbatim>\<open>InFilter\<close> then holds its characters.\<close>

lemma FilterParser_parse_accepts_string:
  "FilterParser_parse (JsonNode (Some ''status'') (Some ''IN'') (Some (PStr ''ab'')) None None)
     = Inr (InFilter ''status'' [PStr ''a'', PStr ''b''])
 \<and> BaseFilterRule_expression \<lparr>table_name = ''t'', dialect = ''duckdb''\<rparr> (InFilter ''status'' [PStr ''a'', PStr ''b''])
     = Inr (In (Column ''status'' ''t'') [Literal (PStr ''a'') True, Literal (PStr ''b'') True])"
  by (simp add: upper_def upper_char_def OPERATOR_MAP_simps get_value_def InFilter_init_def
      column_expr_def literal_list_def Literal_string_def)

text \<open>
  C7. A leaf with operator \<^verbatim>\<open>IN\<close> and an empty list of values compiles: the result is the
  membership predicate over the empty list of literals. The sources have no check for
  an empty membership set.
\<close>

theorem empty_membership_compiles:
  "upper operator = ''IN'' \<Longrightarrow>
     FilterNode_expression ds (SimpleRule field operator (PList [])) =
       Inr (In (column_expr ds field) [])"
  by (simp add: Let_def)

theorem empty_membership_compiles_witness:
  "FilterNode_expression \<lparr>table_name = ''t'', dialect = ''duckdb''\<rparr> (SimpleRule ''status'' ''in'' (PList []))
     = Inr (In (Column ''status'' ''t'') [])"
proof -
  have u: "upper ''in'' = ''IN''"
    by (simp add: upper_def upper_char_def)
  from empty_membership_compiles [OF u, of "\<lparr>table_name = ''t'', dialect = ''duckdb''\<rparr>" "''status''"]
  show ?thesis by (simp add: column_expr_def)
qed

theorem empty_membership_counterexample:
  "FilterNode_expression \<lparr>table_name = ''t'', dialect = ''duckdb''\<rparr> (SimpleRule ''status'' ''IN'' (PList []))
     = Inr (In (Column ''status'' ''t'') [])"
  by (simp add: upper_def upper_char_def column_expr_def)

text \<open>
  C10. For a JSON leaf with a \<^verbatim>\<open>field\<close> and an \<^verbatim>\<open>operator\<close> key and no \<^verbatim>\<open>value\<close> key:
  \<^verbatim>\<open>FilterExpression.from_json\<close> always succeeds and gives a leaf whose value is \<^verbatim>\<open>None\<close>.
  When the operator is one of the nine comparison spellings, that \<^verbatim>\<open>None\<close> is coerced by
  the non-string branch into a numeric literal when the leaf is compiled, and
  \<^verbatim>\<open>FilterParser.parse\<close> succeeds too, with a rule that holds \<^verbatim>\<open>None\<close> and compiles the same
  way. When the operator is \<^verbatim>\<open>IN\<close>, \<^verbatim>\<open>SimpleRule.expression\<close> and \<^verbatim>\<open>FilterParser.parse\<close> both
  raise a \<^verbatim>\<open>ValueError\<close>, \<^verbatim>\<open>None\<close> not being iterable; an unrecognized operator fails in
  \<^verbatim>\<open>FilterParser.parse\<close> as well.
\<close>

theorem missing_value_defaults_to_None:
  "from_json (JsonNode (Some field) (Some operator) None c rs) =
      Inr (SimpleRule field operator PNone)
 \<and> to_literal PNone = Literal_number PNone
 \<and> (upper operator \<in> {''='', ''=='', ''!='', ''<>'', ''>'', ''<'', ''>='', ''<='', ''LIKE''} \<longrightarrow>
      (\<exists>K \<in> {EQ, NEQ, GT, LT, GTE, LTE, Like}.
         FilterNode_expression ds (SimpleRule field operator PNone) =
           Inr (K (column_expr ds field) (Literal_number PNone))))
 \<and> (upper operator = ''IN'' \<longrightarrow>
      FilterNode_expression ds (SimpleRule field operator PNone) =
        Inl (ValueError ''IN operator requires a sequence of values''))
 \<and> (upper operator \<in> {''='', ''=='', ''!='', ''<>'', ''>'', ''<'', ''>='', ''<='', ''LIKE''} \<longrightarrow>
      (\<exists>R K. (R, K) \<in> {(EqualsFilter, EQ), (NotEqualsFilter, NEQ), (GreaterThanFilter, GT),
                   (LessThanFilter, LT), (GreaterOrEqualFilter, GTE), (LessOrEqualFilter, LTE),
                   (LikeFilter, Like)}
         \<and> FilterParser_parse (JsonNode (Some field) (Some operator) None c rs) =
             Inr (R field PNone)
         \<and> BaseFilterRule_expression ds (R field PNone) =
             Inr (K (column_expr ds field) (Literal_number PNone))))
 \<and> (upper operator = ''IN'' \<longrightarrow>
      FilterParser_parse (JsonNode (Some field) (Some operator) None c rs) =
        Inl (ValueError ''IN operator requires a list of values''))
 \<and> (upper operator \<notin> {''='', ''=='', ''!='', ''<>'', ''>'', ''<'', ''>='', ''<='', ''LIKE'', ''IN''} \<longrightarrow>
      FilterParser_parse (JsonNode (Some field) (Some operator) None c rs) =
        Inl (ValueError (''Unsupported operator: '' @ upper operator)))"
proof -
  have n: "get_value None = PNone"
    by (simp add: get_value_def)
  have l: "to_literal PNone = Literal_number PNone" "literal PNone = Literal_number PNone"
    by (simp_all add: to_literal_def literal_def)
  have a: "from_json (JsonNode (Some field) (Some operator) None c rs) =
      Inr (SimpleRule field operator PNone)"
    by (simp add: from_json_def n)
  have b: "upper operator \<in> {''='', ''=='', ''!='', ''<>'', ''>'', ''<'', ''>='', ''<='', ''LIKE''} \<longrightarrow>
      (\<exists>K \<in> {EQ, NEQ, GT, LT, GTE, LTE, Like}.
         FilterNode_expression ds (SimpleRule field operator PNone) =
           Inr (K (column_expr ds field) (Literal_number PNone)))"
    using comparison_cases [of operator ds field PNone] by (simp only: l) blast
  have i: "\<not> is_Iterable PNone \<or> is_str_or_bytes PNone"
    by simp
  have d: "upper operator = ''IN'' \<longrightarrow>
      FilterNode_expression ds (SimpleRule field operator PNone) =
        Inl (ValueError ''IN operator requires a sequence of values'')"
    by (simp add: Let_def)
  have e: "upper operator \<in> {''='', ''=='', ''!='', ''<>'', ''>'', ''<'', ''>='', ''<='', ''LIKE''} \<longrightarrow>
      (\<exists>R K. (R, K) \<in> {(EqualsFilter, EQ), (NotEqualsFilter, NEQ), (GreaterThanFilter, GT),
                   (LessThanFilter, LT), (GreaterOrEqualFilter, GTE), (LessOrEqualFilter, LTE),
                   (LikeFilter, Like)}
         \<and> FilterParser_parse (JsonNode (Some field) (Some operator) None c rs) =
             Inr (R field PNone)
         \<and> BaseFilterRule_expression ds (R field PNone) =
             Inr (K (column_expr ds field) (Literal_number PNone)))"
    using parser_comparison_cases [of operator field None c rs ds] by (simp only: n l) blast
  have f: "upper operator = ''IN'' \<longrightarrow>
      FilterParser_parse (JsonNode (Some field) (Some operator) None c rs) =
        Inl (ValueError ''IN operator requires a list of values'')"
    by (simp add: Let_def OPERATOR_MAP_simps n)
  have g: "upper operator \<notin> {''='', ''=='', ''!='', ''<>'', ''>'', ''<'', ''>='', ''<='', ''LIKE'', ''IN''} \<longrightarrow>
      FilterParser_parse (JsonNode (Some field) (Some operator) None c rs) =
        Inl (ValueError (''Unsupported operator: '' @ upper operator))"
    using FilterParser_unsupported [of operator field None c rs] by blast
  from a l(1) b d e f g show ?thesis
    by (intro conjI)
qed

theorem missing_value_defaults_to_None_witness:
  "from_json (JsonNode (Some ''age'') (Some ''>'') None None None)
     = Inr (SimpleRule ''age'' ''>'' PNone)
 \<and> FilterNode_expression \<lparr>table_name = ''t'', dialect = ''duckdb''\<rparr> (SimpleRule ''age'' ''>'' PNone)
     = Inr (GT (Column ''age'' ''t'') (Literal PNone False))
 \<and> FilterParser_parse (JsonNode (Some ''age'') (Some ''>'') None None None)
     = Inr (GreaterThanFilter ''age'' PNone)
 \<and> BaseFilterRule_expression \<lparr>table_name = ''t'', dialect = ''duckdb''\<rparr> (GreaterThanFilter ''age'' PNone)
     = Inr (GT (Column ''age'' ''t'') (Literal PNone False))
 \<and> FilterParser_parse (JsonNode (Some ''age'') (Some ''in'') None None None)
     = Inl (ValueError ''IN operator requires a list of values'')
 \<and> FilterParser_parse (JsonNode (Some ''age'') (Some ''near'') None None None)
     = Inl (ValueError ''Unsupported operator: NEAR'')"
proof -
  note t = missing_value_defaults_to_None [where field = "''age''" and operator = "''>''"
      and c = None and rs = None and ds = "\<lparr>table_name = ''t'', dialect = ''duckdb''\<rparr>"]
  from t have a: "from_json (JsonNode (Some ''age'') (Some ''>'') None None None)
     = Inr (SimpleRule ''age'' ''>'' PNone)"
    by (elim conjE)
  have h: "upper ''>'' \<in> {''='', ''=='', ''!='', ''<>'', ''>'', ''<'', ''>='', ''<='', ''LIKE''}"
    by (simp add: upper_def upper_char_def)
  from t have p: "upper ''>'' \<in> {''='', ''=='', ''!='', ''<>'', ''>'', ''<'', ''>='', ''<='', ''LIKE''} \<longrightarrow>
      (\<exists>K \<in> {EQ, NEQ, GT, LT, GTE, LTE, Like}.
         FilterNode_expression \<lparr>table_name = ''t'', dialect = ''duckdb''\<rparr> (SimpleRule ''age'' ''>'' PNone) =
           Inr (K (column_expr \<lparr>table_name = ''t'', dialect = ''duckdb''\<rparr> ''age'') (Literal_number PNone)))"
    by (elim conjE)
  from p h have "\<exists>K \<in> {EQ, NEQ, GT, LT, GTE, LTE, Like}.
         FilterNode_expression \<lparr>table_name = ''t'', dialect = ''duckdb''\<rparr> (SimpleRule ''age'' ''>'' PNone) =
           Inr (K (column_expr \<lparr>table_name = ''t'', dialect = ''duckdb''\<rparr> ''age'') (Literal_number PNone))"
    by (rule mp)
  then have b: "FilterNode_expression \<lparr>table_name = ''t'', dialect = ''duckdb''\<rparr> (SimpleRule ''age'' ''>'' PNone)
     = Inr (GT (Column ''age'' ''t'') (Literal PNone False))
   \<and> FilterParser_parse (JsonNode (Some ''age'') (Some ''>'') None None None)
     = Inr (GreaterThanFilter ''age'' PNone)
   \<and> BaseFilterRule_expression \<lparr>table_name = ''t'', dialect = ''duckdb''\<rparr> (GreaterThanFilter ''age'' PNone)
     = Inr (GT (Column ''age'' ''t'') (Literal PNone False))"
    by (simp add: upper_def upper_char_def column_expr_def to_literal_def literal_def
        Literal_number_def OPERATOR_MAP_simps get_value_def)
  have u: "upper ''in'' = ''IN''"
    by (simp add: upper_def upper_char_def)
  from missing_value_defaults_to_None [where field = "''age''" and operator = "''in''"
      and c = None and rs = None and ds = "\<lparr>table_name = ''t'', dialect = ''duckdb''\<rparr>"]
  have i: "upper ''in'' = ''IN'' \<longrightarrow>
      FilterParser_parse (JsonNode (Some ''age'') (Some ''in'') None None None)
        = Inl (ValueError ''IN operator requires a list of values'')"
    by (elim conjE)
  from i u have d: "FilterParser_parse (JsonNode (Some ''age'') (Some ''in'') None None None)
        = Inl (ValueError ''IN operator requires a list of values'')"
    by (rule mp)
  have v: "upper ''near'' \<notin> {''='', ''=='', ''!='', ''<>'', ''>'', ''<'', ''>='', ''<='', ''LIKE'', ''IN''}" and w: "upper ''near'' = ''NEAR''"
    by (simp_all add: upper_def upper_char_def)
  from missing_value_defaults_to_None [where field = "''age''" and operator = "''near''"
      and c = None and rs = None and ds = "\<lparr>table_name = ''t'', dialect = ''duckdb''\<rparr>"]
  have j: "upper ''near'' \<notin> {''='', ''=='', ''!='', ''<>'', ''>'', ''<'', ''>='', ''<='', ''LIKE'', ''IN''} \<longrightarrow>
      FilterParser_parse (JsonNode (Some ''age'') (Some ''near'') None None None)
        = Inl (ValueError (''Unsupported operator: '' @ upper ''near''))"
    by (elim conjE)
  from j v have "FilterParser_parse (JsonNode (Some ''age'') (Some ''near'') None None None)
        = Inl (ValueError (''Unsupported operator: '' @ upper ''near''))"
    by (rule mp)
  then have e: "FilterParser_parse (JsonNode (Some ''age'') (Some ''near'') None None None)
        = Inl (ValueError ''Unsupported operator: NEAR'')"
    by (simp only: w append.simps)
  from a b d e show ?thesis by blast
qed

theorem missing_value_counterexample:
  "FilterParser_parse (JsonNode (Some ''status'') (Some ''IN'') None None None)
     = Inl (ValueError ''IN operator requires a list of values'')
 \<and> from_json (JsonNode (Some ''status'') (Some ''IN'') None None None)
     = Inr (SimpleRule ''status'' ''IN'' PNone)
 \<and> FilterNode_expression \<lparr>table_name = ''t'', dialect = ''duckdb''\<rparr> (SimpleRule ''status'' ''IN'' PNone)
     = Inl (ValueError ''IN operator requires a sequence of values'')"
  by (simp add: upper_def upper_char_def OPERATOR_MAP_simps get_value_def from_json_def)

end
